theory Spec2Isabelle
  imports Main
begin

section \<open>JavaScript values and coercions\<close>

text \<open>
  The server is a single JavaScript file. Its values are modelled by a datatype of the
  values that \<^verbatim>\<open>JSON.parse\<close>, \<^verbatim>\<open>yaml.load\<close> (JSON schema) and the program itself
  produce: \<^verbatim>\<open>undefined\<close>, \<^verbatim>\<open>null\<close>, booleans, numbers, strings, arrays and plain objects.
  An object is the list of its own properties in enumeration order (keys distinct).

  Numbers are IEEE doubles in the program. The model keeps the integers and \<^verbatim>\<open>NaN\<close>:
  block indices and nonces are integers that stay far below \<open>2^53\<close>, where doubles are
  exact, and \<^verbatim>\<open>NaN\<close> is what a missing or non-numeric field coerces to. Fractions,
  infinities and integers beyond the exact range are outside the model.

  Strings are lists of 8-bit characters, read as ASCII text (every string the program
  builds itself is ASCII: digests, ISO timestamps, decimal numbers, JSON punctuation).
\<close>

datatype jsnum = NaN | Fin int

datatype jsval =
    JUndefined
  | JNull
  | JBool bool
  | JNum jsnum
  | JStr string
  | JArr "jsval list"
  | JObj "(string \<times> jsval) list"

datatype error = TypeError | Error string

text \<open>Strict equality \<^verbatim>\<open>===\<close> on numbers (\<^verbatim>\<open>NaN\<close> equals nothing) and \<^verbatim>\<open>x + 1\<close>.\<close>

definition num_eq :: "jsnum \<Rightarrow> jsnum \<Rightarrow> bool" where
  "num_eq a b = (a \<noteq> NaN \<and> a = b)"

definition num_succ :: "jsnum \<Rightarrow> jsnum" where
  "num_succ n = (case n of NaN \<Rightarrow> NaN | Fin i \<Rightarrow> Fin (i + 1))"

text \<open>\<^verbatim>\<open>Number.prototype.toString\<close>, as a template literal applies it.\<close>

definition digit_char :: "nat \<Rightarrow> char" where
  "digit_char d = ''0123456789'' ! d"

fun digits :: "nat \<Rightarrow> string" where
  "digits n = (if n < 10 then [digit_char n] else digits (n div 10) @ [digit_char (n mod 10)])"

declare digits.simps [simp del]

definition num_to_string :: "jsnum \<Rightarrow> string" where
  "num_to_string n =
     (case n of
        NaN \<Rightarrow> ''NaN''
      | Fin i \<Rightarrow> (if i < 0 then CHR ''-'' # digits (nat (- i)) else digits (nat i)))"

text \<open>\<^verbatim>\<open>String.prototype.trim\<close> and the numeric value of a string (\<^verbatim>\<open>Number(s)\<close>): blank
  text is 0, an optionally signed run of decimal digits is its value, other text is
  \<^verbatim>\<open>NaN\<close>. (Literals with a fraction, an exponent or a radix prefix denote numbers the
  model does not hold; they are read as \<^verbatim>\<open>NaN\<close> here.)\<close>

definition is_space :: "char \<Rightarrow> bool" where
  "is_space c = (c \<in> set [CHR 0x09, CHR 0x0A, CHR 0x0B, CHR 0x0C, CHR 0x0D, CHR 0x20])"

definition trim :: "string \<Rightarrow> string" where
  "trim s = rev (dropWhile is_space (rev (dropWhile is_space s)))"

definition is_digit :: "char \<Rightarrow> bool" where
  "is_digit c = (c \<in> set ''0123456789'')"

definition dec_value :: "string \<Rightarrow> nat" where
  "dec_value ds = foldl (\<lambda>a c. 10 * a + (of_char c - 48)) 0 ds"

definition unsigned_num :: "string \<Rightarrow> int option" where
  "unsigned_num ds = (if ds \<noteq> [] \<and> list_all is_digit ds then Some (int (dec_value ds)) else None)"

definition str_to_num :: "string \<Rightarrow> jsnum" where
  "str_to_num s =
     (case trim s of
        [] \<Rightarrow> Fin 0
      | c # r \<Rightarrow>
          (if c = CHR ''-'' then (case unsigned_num r of Some v \<Rightarrow> Fin (- v) | None \<Rightarrow> NaN)
           else if c = CHR ''+'' then (case unsigned_num r of Some v \<Rightarrow> Fin v | None \<Rightarrow> NaN)
           else (case unsigned_num (c # r) of Some v \<Rightarrow> Fin v | None \<Rightarrow> NaN)))"

text \<open>Property read \<^verbatim>\<open>v.k\<close> for the keys this program reads (none of them is inherited
  from a prototype), truthiness, and \<^verbatim>\<open>a ?? b\<close>.\<close>

definition get_prop :: "jsval \<Rightarrow> string \<Rightarrow> jsval" where
  "get_prop v k =
     (case v of
        JObj kvs \<Rightarrow> (case map_of kvs k of Some x \<Rightarrow> x | None \<Rightarrow> JUndefined)
      | _ \<Rightarrow> JUndefined)"

definition truthy :: "jsval \<Rightarrow> bool" where
  "truthy v =
     (case v of
        JUndefined \<Rightarrow> False
      | JNull \<Rightarrow> False
      | JBool b \<Rightarrow> b
      | JNum n \<Rightarrow> (n \<noteq> NaN \<and> n \<noteq> Fin 0)
      | JStr s \<Rightarrow> s \<noteq> []
      | _ \<Rightarrow> True)"

definition nullish :: "jsval \<Rightarrow> bool" where
  "nullish v = (v = JUndefined \<or> v = JNull)"

definition coalesce :: "jsval \<Rightarrow> jsval \<Rightarrow> jsval" where
  "coalesce a b = (if nullish a then b else a)"

text \<open>\<^verbatim>\<open>String(v)\<close>. An array is joined with commas (\<^verbatim>\<open>null\<close> and \<^verbatim>\<open>undefined\<close> elements
  give the empty string). A plain object gives \<^verbatim>\<open>[object Object]\<close> through the inherited
  \<^verbatim>\<open>toString\<close>; when the object has an own property \<^verbatim>\<open>toString\<close> (from a parsed document:
  never a function) the conversion finds no callable method that returns a primitive and
  throws a \<^verbatim>\<open>TypeError\<close>.\<close>

definition own_keys :: "(string \<times> jsval) list \<Rightarrow> string list" where
  "own_keys kvs = map fst kvs"

fun to_string :: "jsval \<Rightarrow> error + string"
  and join_elems :: "jsval list \<Rightarrow> error + string"
where
  "to_string JUndefined = Inr ''undefined''"
| "to_string JNull = Inr ''null''"
| "to_string (JBool b) = Inr (if b then ''true'' else ''false'')"
| "to_string (JNum n) = Inr (num_to_string n)"
| "to_string (JStr s) = Inr s"
| "to_string (JArr xs) = join_elems xs"
| "to_string (JObj kvs) =
     (if ''toString'' \<in> set (own_keys kvs) then Inl TypeError else Inr ''[object Object]'')"
| "join_elems [] = Inr []"
| "join_elems (x # xs) =
     (case (if nullish x then Inr [] else to_string x) of
        Inl e \<Rightarrow> Inl e
      | Inr s \<Rightarrow>
          (case join_elems xs of
             Inl e \<Rightarrow> Inl e
           | Inr r \<Rightarrow> Inr (if xs = [] then s else s @ '','' @ r)))"

text \<open>\<^verbatim>\<open>Number(v)\<close>.\<close>

definition to_number :: "jsval \<Rightarrow> error + jsnum" where
  "to_number v =
     (case v of
        JUndefined \<Rightarrow> Inr NaN
      | JNull \<Rightarrow> Inr (Fin 0)
      | JBool b \<Rightarrow> Inr (Fin (if b then 1 else 0))
      | JNum n \<Rightarrow> Inr n
      | JStr s \<Rightarrow> Inr (str_to_num s)
      | JArr xs \<Rightarrow> (case join_elems xs of Inl e \<Rightarrow> Inl e | Inr s \<Rightarrow> Inr (str_to_num s))
      | JObj kvs \<Rightarrow> (if ''toString'' \<in> set (own_keys kvs) then Inl TypeError else Inr NaN))"

text \<open>\<^verbatim>\<open>JSON.stringify(v)\<close> with no replacer and no indentation; \<open>None\<close> is the result
  \<^verbatim>\<open>undefined\<close>.\<close>

definition hex_char :: "nat \<Rightarrow> char" where
  "hex_char d = ''0123456789abcdef'' ! d"

definition escape_char :: "char \<Rightarrow> string" where
  "escape_char c =
     (if c = CHR 0x22 then [CHR 0x5C, CHR 0x22]
      else if c = CHR 0x5C then [CHR 0x5C, CHR 0x5C]
      else if c = CHR 0x08 then [CHR 0x5C, CHR ''b'']
      else if c = CHR 0x09 then [CHR 0x5C, CHR ''t'']
      else if c = CHR 0x0A then [CHR 0x5C, CHR ''n'']
      else if c = CHR 0x0C then [CHR 0x5C, CHR ''f'']
      else if c = CHR 0x0D then [CHR 0x5C, CHR ''r'']
      else if (of_char c :: nat) < 32
        then [CHR 0x5C, CHR ''u'', CHR ''0'', CHR ''0'',
              hex_char (of_char c div 16), hex_char (of_char c mod 16)]
      else [c])"

definition quote :: "string \<Rightarrow> string" where
  "quote s = CHR 0x22 # concat (map escape_char s) @ [CHR 0x22]"

fun join_with :: "string \<Rightarrow> string list \<Rightarrow> string" where
  "join_with sep [] = []"
| "join_with sep [x] = x"
| "join_with sep (x # y # r) = x @ sep @ join_with sep (y # r)"

fun stringify :: "jsval \<Rightarrow> string option"
  and stringify_elems :: "jsval list \<Rightarrow> string list"
  and stringify_props :: "(string \<times> jsval) list \<Rightarrow> string list"
where
  "stringify JUndefined = None"
| "stringify JNull = Some ''null''"
| "stringify (JBool b) = Some (if b then ''true'' else ''false'')"
| "stringify (JNum n) = Some (if n = NaN then ''null'' else num_to_string n)"
| "stringify (JStr s) = Some (quote s)"
| "stringify (JArr xs) = Some (''['' @ join_with '','' (stringify_elems xs) @ '']'')"
| "stringify (JObj kvs) = Some (''{'' @ join_with '','' (stringify_props kvs) @ ''}'')"
| "stringify_elems [] = []"
| "stringify_elems (x # xs) =
     (case stringify x of None \<Rightarrow> ''null'' | Some t \<Rightarrow> t) # stringify_elems xs"
| "stringify_props [] = []"
| "stringify_props ((k, v) # kvs) =
     (case stringify v of
        None \<Rightarrow> stringify_props kvs
      | Some t \<Rightarrow> (quote k @ '':'' @ t) # stringify_props kvs)"

text \<open>\<^verbatim>\<open>s.startsWith(p)\<close>.\<close>

fun startsWith :: "string \<Rightarrow> string \<Rightarrow> bool" where
  "startsWith s [] = True"
| "startsWith [] (p # ps) = False"
| "startsWith (c # cs) (p # ps) = (c = p \<and> startsWith cs ps)"

section \<open>SHA-256\<close>

text \<open>
  \<^verbatim>\<open>crypto.createHash('sha256').update(str).digest('hex')\<close> is the SHA-256 digest
  (FIPS 180-4) of the text, as 64 lower-case hexadecimal digits. The digest is modelled
  here in full, so that hashes of concrete blocks can be computed inside the logic.
  A 32-bit word is the list of its bits, least significant first; this keeps every
  operation structural.
\<close>

type_synonym word32 = "bool list"

definition xor3 :: "bool \<Rightarrow> bool \<Rightarrow> bool \<Rightarrow> bool" where
  "xor3 a b c = ((a \<noteq> b) \<noteq> c)"

definition majb :: "bool \<Rightarrow> bool \<Rightarrow> bool \<Rightarrow> bool" where
  "majb a b c = ((a \<and> b) \<or> (c \<and> (a \<noteq> b)))"

definition chb :: "bool \<Rightarrow> bool \<Rightarrow> bool \<Rightarrow> bool" where
  "chb a b c = ((a \<and> b) \<noteq> (\<not> a \<and> c))"

fun xorw :: "word32 \<Rightarrow> word32 \<Rightarrow> word32" where
  "xorw (a # as) (b # bs) = (a \<noteq> b) # xorw as bs"
| "xorw _ _ = []"

fun andw :: "word32 \<Rightarrow> word32 \<Rightarrow> word32" where
  "andw (a # as) (b # bs) = (a \<and> b) # andw as bs"
| "andw _ _ = []"

definition notw :: "word32 \<Rightarrow> word32" where
  "notw w = map Not w"

text \<open>Addition modulo \<open>2^32\<close>: ripple carry from the least significant bit, the final
  carry dropped.\<close>

fun addc :: "bool \<Rightarrow> word32 \<Rightarrow> word32 \<Rightarrow> word32" where
  "addc c (a # as) (b # bs) = xor3 a b c # addc (majb a b c) as bs"
| "addc c _ _ = []"

definition add32 :: "word32 \<Rightarrow> word32 \<Rightarrow> word32" where
  "add32 a b = addc False a b"

definition rotr :: "nat \<Rightarrow> word32 \<Rightarrow> word32" where
  "rotr n w = drop n w @ take n w"

definition shr :: "nat \<Rightarrow> word32 \<Rightarrow> word32" where
  "shr n w = drop n w @ map (\<lambda>_. False) (take n w)"

definition Ch :: "word32 \<Rightarrow> word32 \<Rightarrow> word32 \<Rightarrow> word32" where
  "Ch x y z = xorw (andw x y) (andw (notw x) z)"

definition Maj :: "word32 \<Rightarrow> word32 \<Rightarrow> word32 \<Rightarrow> word32" where
  "Maj x y z = xorw (xorw (andw x y) (andw x z)) (andw y z)"

definition Sigma0 :: "word32 \<Rightarrow> word32" where
  "Sigma0 x = xorw (xorw (rotr 2 x) (rotr 13 x)) (rotr 22 x)"

definition Sigma1 :: "word32 \<Rightarrow> word32" where
  "Sigma1 x = xorw (xorw (rotr 6 x) (rotr 11 x)) (rotr 25 x)"

definition sigma0 :: "word32 \<Rightarrow> word32" where
  "sigma0 x = xorw (xorw (rotr 7 x) (rotr 18 x)) (shr 3 x)"

definition sigma1 :: "word32 \<Rightarrow> word32" where
  "sigma1 x = xorw (xorw (rotr 17 x) (rotr 19 x)) (shr 10 x)"

text \<open>The low \<open>k\<close> bits of a number, and a word written as eight hexadecimal digits.\<close>

fun bits :: "nat \<Rightarrow> nat \<Rightarrow> bool list" where
  "bits k n = (if k = 0 then [] else odd n # bits (k - 1) (n div 2))"

declare bits.simps [simp del]

definition hex_val :: "char \<Rightarrow> nat" where
  "hex_val c = (if (of_char c :: nat) < 58 then of_char c - 48 else of_char c - 87)"

definition word_of_hex :: "string \<Rightarrow> word32" where
  "word_of_hex s = bits 32 (foldl (\<lambda>a c. 16 * a + hex_val c) 0 s)"

definition K256 :: "word32 list" where
  "K256 = map word_of_hex
    [''428a2f98'', ''71374491'', ''b5c0fbcf'', ''e9b5dba5'', ''3956c25b'', ''59f111f1'',
     ''923f82a4'', ''ab1c5ed5'', ''d807aa98'', ''12835b01'', ''243185be'', ''550c7dc3'',
     ''72be5d74'', ''80deb1fe'', ''9bdc06a7'', ''c19bf174'', ''e49b69c1'', ''efbe4786'',
     ''0fc19dc6'', ''240ca1cc'', ''2de92c6f'', ''4a7484aa'', ''5cb0a9dc'', ''76f988da'',
     ''983e5152'', ''a831c66d'', ''b00327c8'', ''bf597fc7'', ''c6e00bf3'', ''d5a79147'',
     ''06ca6351'', ''14292967'', ''27b70a85'', ''2e1b2138'', ''4d2c6dfc'', ''53380d13'',
     ''650a7354'', ''766a0abb'', ''81c2c92e'', ''92722c85'', ''a2bfe8a1'', ''a81a664b'',
     ''c24b8b70'', ''c76c51a3'', ''d192e819'', ''d6990624'', ''f40e3585'', ''106aa070'',
     ''19a4c116'', ''1e376c08'', ''2748774c'', ''34b0bcb5'', ''391c0cb3'', ''4ed8aa4a'',
     ''5b9cca4f'', ''682e6ff3'', ''748f82ee'', ''78a5636f'', ''84c87814'', ''8cc70208'',
     ''90befffa'', ''a4506ceb'', ''bef9a3f7'', ''c67178f2'']"

definition H256 :: "word32 list" where
  "H256 = map word_of_hex
    [''6a09e667'', ''bb67ae85'', ''3c6ef372'', ''a54ff53a'', ''510e527f'', ''9b05688c'',
     ''1f83d9ab'', ''5be0cd19'']"

text \<open>The message schedule, newest word first: \<open>W\<^sub>t = \<sigma>\<^sub>1(W\<^sub>t\<^sub>-\<^sub>2) + W\<^sub>t\<^sub>-\<^sub>7 + \<sigma>\<^sub>0(W\<^sub>t\<^sub>-\<^sub>1\<^sub>5) + W\<^sub>t\<^sub>-\<^sub>1\<^sub>6\<close>.\<close>

fun sched_word :: "word32 list \<Rightarrow> word32" where
  "sched_word (w1 # w2 # w3 # w4 # w5 # w6 # w7 # w8 # w9 # w10 # w11 # w12 # w13 # w14 # w15 # w16 # r) =
     add32 (add32 (sigma1 w2) w7) (add32 (sigma0 w15) w16)"
| "sched_word _ = []"

definition sched_step :: "word32 list \<Rightarrow> word32 list" where
  "sched_step ws = sched_word ws # ws"

fun schedule :: "nat \<Rightarrow> word32 list \<Rightarrow> word32 list" where
  "schedule n ws = (if n = 0 then ws else schedule (n - 1) (sched_step ws))"

declare schedule.simps [simp del]

text \<open>One round on the working variables \<open>a..h\<close>.\<close>

fun round_out :: "word32 \<Rightarrow> word32 \<Rightarrow> word32 list \<Rightarrow> word32 list" where
  "round_out t1 t2 [a, b, c, d, e, f, g] = [add32 t1 t2, a, b, c, add32 d t1, e, f, g]"
| "round_out t1 t2 s = s"

fun round256 :: "word32 list \<Rightarrow> (word32 \<times> word32) \<Rightarrow> word32 list" where
  "round256 [a, b, c, d, e, f, g, h] (k, w) =
     round_out (add32 (add32 (add32 h (Sigma1 e)) (Ch e f g)) (add32 k w))
               (add32 (Sigma0 a) (Maj a b c)) [a, b, c, d, e, f, g]"
| "round256 s _ = s"

definition compress :: "word32 list \<Rightarrow> word32 list \<Rightarrow> word32 list" where
  "compress hs m = map2 add32 hs (foldl round256 hs (zip K256 (rev (schedule 48 (rev m)))))"

fun sha_blocks :: "word32 list \<Rightarrow> word32 list \<Rightarrow> word32 list" where
  "sha_blocks hs (w0 # w1 # w2 # w3 # w4 # w5 # w6 # w7 # w8 # w9 # w10 # w11 # w12 # w13 # w14 # w15 # r) =
     sha_blocks (compress hs [w0, w1, w2, w3, w4, w5, w6, w7, w8, w9, w10, w11, w12, w13, w14, w15]) r"
| "sha_blocks hs _ = hs"

text \<open>Padding: the message bytes, the byte \<open>0x80\<close>, zero bytes up to 56 modulo 64, and
  the bit length as eight bytes, most significant first. Four bytes make a big-endian
  word.\<close>

fun bits_of_char :: "char \<Rightarrow> bool list" where
  "bits_of_char (Char b0 b1 b2 b3 b4 b5 b6 b7) = [b0, b1, b2, b3, b4, b5, b6, b7]"

fun be32 :: "bool list list \<Rightarrow> word32 list" where
  "be32 (c0 # c1 # c2 # c3 # r) = (c3 @ c2 @ c1 @ c0) # be32 r"
| "be32 _ = []"

fun len_from :: "nat \<Rightarrow> 'a list \<Rightarrow> nat" where
  "len_from n [] = n"
| "len_from n (x # xs) = len_from (n + 1) xs"

fun zero_bytes :: "nat \<Rightarrow> bool list list" where
  "zero_bytes n = (if n = 0 then [] else bits 8 0 # zero_bytes (n - 1))"

declare zero_bytes.simps [simp del]

definition pad_for :: "nat \<Rightarrow> bool list list" where
  "pad_for l = [bits 8 128] @ zero_bytes ((119 - l mod 64) mod 64) @
     map (\<lambda>k. bits 8 ((8 * l) div 2 ^ k)) [56, 48, 40, 32, 24, 16, 8, 0]"

definition pad :: "string \<Rightarrow> bool list list" where
  "pad s = map bits_of_char s @ pad_for (len_from 0 s)"

definition hexdigit :: "bool \<Rightarrow> bool \<Rightarrow> bool \<Rightarrow> bool \<Rightarrow> char" where
  "hexdigit b3 b2 b1 b0 =
     ''0123456789abcdef'' ! (8 * of_bool b3 + 4 * of_bool b2 + 2 * of_bool b1 + of_bool b0)"

fun hexs :: "bool list \<Rightarrow> string" where
  "hexs (b0 # b1 # b2 # b3 # r) = hexdigit b3 b2 b1 b0 # hexs r"
| "hexs _ = []"

definition hex32 :: "word32 \<Rightarrow> string" where
  "hex32 w = rev (hexs w)"

definition sha256_words :: "string \<Rightarrow> word32 list" where
  "sha256_words s = sha_blocks H256 (be32 (pad s))"

definition sha256 :: "string \<Rightarrow> string" where
  "sha256 s = concat (map hex32 (sha256_words s))"

subsection \<open>Rules for computing a digest by rewriting\<close>

lemma xor3_table:
  "xor3 False False False = False" "xor3 False False True = True"
  "xor3 False True False = True" "xor3 False True True = False"
  "xor3 True False False = True" "xor3 True False True = False"
  "xor3 True True False = False" "xor3 True True True = True"
  by (simp_all add: xor3_def)

lemma majb_table:
  "majb False False False = False" "majb False False True = False"
  "majb False True False = False" "majb False True True = True"
  "majb True False False = False" "majb True False True = True"
  "majb True True False = True" "majb True True True = True"
  by (simp_all add: majb_def)

lemma chb_table:
  "chb False False False = False" "chb False False True = True"
  "chb False True False = False" "chb False True True = True"
  "chb True False False = False" "chb True False True = False"
  "chb True True False = True" "chb True True True = True"
  by (simp_all add: chb_def)

lemma Sigma0_32:
  "Sigma0 [x0, x1, x2, x3, x4, x5, x6, x7, x8, x9, x10, x11, x12, x13, x14, x15, x16, x17, x18, x19,
     x20, x21, x22, x23, x24, x25, x26, x27, x28, x29, x30, x31] =
    [xor3 x2 x13 x22, xor3 x3 x14 x23, xor3 x4 x15 x24, xor3 x5 x16 x25, xor3 x6 x17 x26,
     xor3 x7 x18 x27, xor3 x8 x19 x28, xor3 x9 x20 x29, xor3 x10 x21 x30, xor3 x11 x22 x31,
     xor3 x12 x23 x0, xor3 x13 x24 x1, xor3 x14 x25 x2, xor3 x15 x26 x3, xor3 x16 x27 x4,
     xor3 x17 x28 x5, xor3 x18 x29 x6, xor3 x19 x30 x7, xor3 x20 x31 x8, xor3 x21 x0 x9,
     xor3 x22 x1 x10, xor3 x23 x2 x11, xor3 x24 x3 x12, xor3 x25 x4 x13, xor3 x26 x5 x14,
     xor3 x27 x6 x15, xor3 x28 x7 x16, xor3 x29 x8 x17, xor3 x30 x9 x18, xor3 x31 x10 x19,
     xor3 x0 x11 x20, xor3 x1 x12 x21]"
  by (simp add: Sigma0_def rotr_def shr_def xor3_def)

lemma Sigma1_32:
  "Sigma1 [x0, x1, x2, x3, x4, x5, x6, x7, x8, x9, x10, x11, x12, x13, x14, x15, x16, x17, x18, x19,
     x20, x21, x22, x23, x24, x25, x26, x27, x28, x29, x30, x31] =
    [xor3 x6 x11 x25, xor3 x7 x12 x26, xor3 x8 x13 x27, xor3 x9 x14 x28, xor3 x10 x15 x29,
     xor3 x11 x16 x30, xor3 x12 x17 x31, xor3 x13 x18 x0, xor3 x14 x19 x1, xor3 x15 x20 x2,
     xor3 x16 x21 x3, xor3 x17 x22 x4, xor3 x18 x23 x5, xor3 x19 x24 x6, xor3 x20 x25 x7,
     xor3 x21 x26 x8, xor3 x22 x27 x9, xor3 x23 x28 x10, xor3 x24 x29 x11, xor3 x25 x30 x12,
     xor3 x26 x31 x13, xor3 x27 x0 x14, xor3 x28 x1 x15, xor3 x29 x2 x16, xor3 x30 x3 x17,
     xor3 x31 x4 x18, xor3 x0 x5 x19, xor3 x1 x6 x20, xor3 x2 x7 x21, xor3 x3 x8 x22,
     xor3 x4 x9 x23, xor3 x5 x10 x24]"
  by (simp add: Sigma1_def rotr_def shr_def xor3_def)

lemma sigma0_32:
  "sigma0 [x0, x1, x2, x3, x4, x5, x6, x7, x8, x9, x10, x11, x12, x13, x14, x15, x16, x17, x18, x19,
     x20, x21, x22, x23, x24, x25, x26, x27, x28, x29, x30, x31] =
    [xor3 x7 x18 x3, xor3 x8 x19 x4, xor3 x9 x20 x5, xor3 x10 x21 x6, xor3 x11 x22 x7,
     xor3 x12 x23 x8, xor3 x13 x24 x9, xor3 x14 x25 x10, xor3 x15 x26 x11, xor3 x16 x27 x12,
     xor3 x17 x28 x13, xor3 x18 x29 x14, xor3 x19 x30 x15, xor3 x20 x31 x16, xor3 x21 x0 x17,
     xor3 x22 x1 x18, xor3 x23 x2 x19, xor3 x24 x3 x20, xor3 x25 x4 x21, xor3 x26 x5 x22,
     xor3 x27 x6 x23, xor3 x28 x7 x24, xor3 x29 x8 x25, xor3 x30 x9 x26, xor3 x31 x10 x27,
     xor3 x0 x11 x28, xor3 x1 x12 x29, xor3 x2 x13 x30, xor3 x3 x14 x31, xor3 x4 x15 False,
     xor3 x5 x16 False, xor3 x6 x17 False]"
  by (simp add: sigma0_def rotr_def shr_def xor3_def)

lemma sigma1_32:
  "sigma1 [x0, x1, x2, x3, x4, x5, x6, x7, x8, x9, x10, x11, x12, x13, x14, x15, x16, x17, x18, x19,
     x20, x21, x22, x23, x24, x25, x26, x27, x28, x29, x30, x31] =
    [xor3 x17 x19 x10, xor3 x18 x20 x11, xor3 x19 x21 x12, xor3 x20 x22 x13, xor3 x21 x23 x14,
     xor3 x22 x24 x15, xor3 x23 x25 x16, xor3 x24 x26 x17, xor3 x25 x27 x18, xor3 x26 x28 x19,
     xor3 x27 x29 x20, xor3 x28 x30 x21, xor3 x29 x31 x22, xor3 x30 x0 x23, xor3 x31 x1 x24,
     xor3 x0 x2 x25, xor3 x1 x3 x26, xor3 x2 x4 x27, xor3 x3 x5 x28, xor3 x4 x6 x29,
     xor3 x5 x7 x30, xor3 x6 x8 x31, xor3 x7 x9 False, xor3 x8 x10 False, xor3 x9 x11 False,
     xor3 x10 x12 False, xor3 x11 x13 False, xor3 x12 x14 False, xor3 x13 x15 False,
     xor3 x14 x16 False, xor3 x15 x17 False, xor3 x16 x18 False]"
  by (simp add: sigma1_def rotr_def shr_def xor3_def)

lemma Ch_32:
  "Ch [x0, x1, x2, x3, x4, x5, x6, x7, x8, x9, x10, x11, x12, x13, x14, x15, x16, x17, x18, x19,
     x20, x21, x22, x23, x24, x25, x26, x27, x28, x29, x30, x31]
      [y0, y1, y2, y3, y4, y5, y6, y7, y8, y9, y10, y11, y12, y13, y14, y15, y16, y17, y18, y19,
     y20, y21, y22, y23, y24, y25, y26, y27, y28, y29, y30, y31]
      [z0, z1, z2, z3, z4, z5, z6, z7, z8, z9, z10, z11, z12, z13, z14, z15, z16, z17, z18, z19,
     z20, z21, z22, z23, z24, z25, z26, z27, z28, z29, z30, z31] =
    [chb x0 y0 z0, chb x1 y1 z1, chb x2 y2 z2, chb x3 y3 z3, chb x4 y4 z4, chb x5 y5 z5,
     chb x6 y6 z6, chb x7 y7 z7, chb x8 y8 z8, chb x9 y9 z9, chb x10 y10 z10, chb x11 y11 z11,
     chb x12 y12 z12, chb x13 y13 z13, chb x14 y14 z14, chb x15 y15 z15, chb x16 y16 z16,
     chb x17 y17 z17, chb x18 y18 z18, chb x19 y19 z19, chb x20 y20 z20, chb x21 y21 z21,
     chb x22 y22 z22, chb x23 y23 z23, chb x24 y24 z24, chb x25 y25 z25, chb x26 y26 z26,
     chb x27 y27 z27, chb x28 y28 z28, chb x29 y29 z29, chb x30 y30 z30, chb x31 y31 z31]"
  by (simp add: Ch_def notw_def chb_def)

lemma Maj_32:
  "Maj [x0, x1, x2, x3, x4, x5, x6, x7, x8, x9, x10, x11, x12, x13, x14, x15, x16, x17, x18, x19,
     x20, x21, x22, x23, x24, x25, x26, x27, x28, x29, x30, x31]
       [y0, y1, y2, y3, y4, y5, y6, y7, y8, y9, y10, y11, y12, y13, y14, y15, y16, y17, y18, y19,
     y20, y21, y22, y23, y24, y25, y26, y27, y28, y29, y30, y31]
       [z0, z1, z2, z3, z4, z5, z6, z7, z8, z9, z10, z11, z12, z13, z14, z15, z16, z17, z18, z19,
     z20, z21, z22, z23, z24, z25, z26, z27, z28, z29, z30, z31] =
    [majb x0 y0 z0, majb x1 y1 z1, majb x2 y2 z2, majb x3 y3 z3, majb x4 y4 z4, majb x5 y5 z5,
     majb x6 y6 z6, majb x7 y7 z7, majb x8 y8 z8, majb x9 y9 z9, majb x10 y10 z10,
     majb x11 y11 z11, majb x12 y12 z12, majb x13 y13 z13, majb x14 y14 z14, majb x15 y15 z15,
     majb x16 y16 z16, majb x17 y17 z17, majb x18 y18 z18, majb x19 y19 z19, majb x20 y20 z20,
     majb x21 y21 z21, majb x22 y22 z22, majb x23 y23 z23, majb x24 y24 z24, majb x25 y25 z25,
     majb x26 y26 z26, majb x27 y27 z27, majb x28 y28 z28, majb x29 y29 z29, majb x30 y30 z30,
     majb x31 y31 z31]"
  by (simp add: Maj_def majb_def) blast+

lemma K256_bits:
  "K256 = [
     [False, False, False, True, True, False, False, True, True, True, True, True, False, True,
      False, False, False, True, False, True, False, False, False, True, False, True, False,
      False, False, False, True, False],
     [True, False, False, False, True, False, False, True, False, False, True, False, False,
      False, True, False, True, True, True, False, True, True, False, False, True, False, False,
      False, True, True, True, False],
     [True, True, True, True, False, False, True, True, True, True, False, True, True, True,
      True, True, False, False, False, False, False, False, True, True, True, False, True, False,
      True, True, False, True],
     [True, False, True, False, False, True, False, True, True, True, False, True, True, False,
      True, True, True, False, True, False, True, True, False, True, True, False, False, True,
      False, True, True, True],
     [True, True, False, True, True, False, True, False, False, True, False, False, False, False,
      True, True, False, True, True, False, True, False, True, False, True, False, False, True,
      True, True, False, False],
     [True, False, False, False, True, True, True, True, True, False, False, False, True, False,
      False, False, True, False, False, False, True, True, True, True, True, False, False, True,
      True, False, True, False],
     [False, False, True, False, False, True, False, True, False, True, False, False, False,
      False, False, True, True, True, True, True, True, True, False, False, False, True, False,
      False, True, False, False, True],
     [True, False, True, False, True, False, True, True, False, True, True, True, True, False,
      True, False, False, False, True, True, True, False, False, False, True, True, False, True,
      False, True, False, True],
     [False, False, False, True, True, False, False, True, False, True, False, True, False, True,
      False, True, True, True, True, False, False, False, False, False, False, False, False,
      True, True, False, True, True],
     [True, False, False, False, False, False, False, False, True, True, False, True, True,
      False, True, False, True, True, False, False, False, False, False, True, False, True,
      False, False, True, False, False, False],
     [False, True, True, True, True, True, False, True, True, False, True, False, False, False,
      False, True, True, False, False, False, True, True, False, False, False, False, True,
      False, False, True, False, False],
     [True, True, False, False, False, False, True, True, True, False, True, True, True, True,
      True, False, False, False, True, True, False, False, False, False, True, False, True,
      False, True, False, True, False],
     [False, False, True, False, True, True, True, False, True, False, True, True, True, False,
      True, False, False, True, True, True, True, True, False, True, False, True, False, False,
      True, True, True, False],
     [False, True, True, True, True, True, True, True, True, False, False, False, True, True,
      False, True, False, True, True, True, True, False, True, True, False, False, False, False,
      False, False, False, True],
     [True, True, True, False, False, True, False, True, False, True, True, False, False, False,
      False, False, False, False, True, True, True, False, True, True, True, True, False, True,
      True, False, False, True],
     [False, False, True, False, True, True, True, False, True, False, False, False, True, True,
      True, True, True, True, False, True, True, False, False, True, True, False, False, False,
      False, False, True, True],
     [True, False, False, False, False, False, True, True, True, False, False, True, False, True,
      True, False, True, True, False, True, True, False, False, True, False, False, True, False,
      False, True, True, True],
     [False, True, True, False, False, False, False, True, True, True, True, False, False, False,
      True, False, False, True, True, True, True, True, False, True, True, True, True, True,
      False, True, True, True],
     [False, True, True, False, False, False, True, True, True, False, True, True, True, False,
      False, True, True, False, False, False, False, False, True, True, True, True, True, True,
      False, False, False, False],
     [False, False, True, True, False, False, True, True, True, False, False, False, False, True,
      False, True, False, False, True, True, False, False, False, False, False, False, True,
      False, False, True, False, False],
     [True, True, True, True, False, True, True, False, False, False, True, True, False, True,
      False, False, True, False, False, True, False, True, True, True, True, False, True, True,
      False, True, False, False],
     [False, True, False, True, False, True, False, True, False, False, True, False, False,
      False, False, True, False, False, True, False, True, True, True, False, False, True, False,
      True, False, False, True, False],
     [False, False, True, True, True, False, True, True, True, False, False, True, False, True,
      False, True, False, False, False, False, True, True, False, True, False, False, True, True,
      True, False, True, False],
     [False, True, False, True, True, False, True, True, False, False, False, True, False, False,
      False, True, True, False, False, True, True, True, True, True, False, True, True, False,
      True, True, True, False],
     [False, True, False, False, True, False, True, False, True, False, False, False, True,
      False, True, False, False, True, True, True, True, True, False, False, False, False, False,
      True, True, False, False, True],
     [True, False, True, True, False, True, True, False, False, True, True, False, False, False,
      True, True, True, False, False, False, True, True, False, False, False, False, False, True,
      False, True, False, True],
     [False, False, False, True, False, False, True, True, True, True, True, False, False, True,
      False, False, True, True, False, False, False, False, False, False, False, False, False,
      False, True, True, False, True],
     [True, True, True, False, False, False, True, True, True, True, True, True, True, True,
      True, False, True, False, False, True, True, False, True, False, True, True, True, True,
      True, True, False, True],
     [True, True, False, False, True, True, True, True, True, True, False, True, False, False,
      False, False, False, False, False, False, False, True, True, True, False, True, True,
      False, False, False, True, True],
     [True, True, True, False, False, False, True, False, True, False, False, False, True, False,
      False, True, True, True, True, False, False, True, False, True, True, False, True, False,
      True, False, True, True],
     [True, False, False, False, True, False, True, False, True, True, False, False, False, True,
      True, False, False, True, False, True, False, False, True, True, False, True, True, False,
      False, False, False, False],
     [True, True, True, False, False, True, True, False, True, False, False, True, False, True,
      False, False, True, False, False, True, False, True, False, False, False, False, True,
      False, True, False, False, False],
     [True, False, True, False, False, False, False, True, False, True, False, True, False,
      False, False, False, True, True, True, False, True, True, False, True, True, True, True,
      False, False, True, False, False],
     [False, False, False, True, True, True, False, False, True, False, False, False, False,
      True, False, False, True, True, False, True, True, False, False, False, False, True, True,
      True, False, True, False, False],
     [False, False, True, True, True, True, True, True, True, False, True, True, False, True,
      True, False, False, False, True, True, False, True, False, False, True, False, True, True,
      False, False, True, False],
     [True, True, False, False, True, False, False, False, True, False, True, True, False, False,
      False, False, False, False, False, True, True, True, False, False, True, True, False,
      False, True, False, True, False],
     [False, False, True, False, True, False, True, False, True, True, False, False, True, True,
      True, False, False, True, False, True, False, False, False, False, True, False, True,
      False, False, True, True, False],
     [True, True, False, True, True, True, False, True, False, True, False, True, False, False,
      False, False, False, True, False, True, False, True, True, False, False, True, True, False,
      True, True, True, False],
     [False, True, True, True, False, True, False, False, True, False, False, True, False, False,
      True, True, False, True, False, False, False, False, True, True, True, False, False, False,
      False, False, False, True],
     [True, False, True, False, False, False, False, True, False, False, True, True, False, True,
      False, False, False, True, False, False, True, True, True, False, False, True, False,
      False, True, False, False, True],
     [True, False, False, False, False, True, False, True, False, False, False, True, False,
      True, True, True, True, True, True, True, True, True, False, True, False, True, False,
      False, False, True, False, True],
     [True, True, False, True, False, False, True, False, False, True, True, False, False, True,
      True, False, False, True, False, True, True, False, False, False, False, False, False,
      True, False, True, False, True],
     [False, False, False, False, True, True, True, False, True, True, False, True, False, False,
      False, True, True, True, False, True, False, False, True, False, False, True, False, False,
      False, False, True, True],
     [True, True, False, False, False, True, False, True, True, False, False, False, True, False,
      True, False, False, False, True, True, False, True, True, False, True, True, True, False,
      False, False, True, True],
     [True, False, False, True, True, False, False, False, False, False, False, True, False,
      True, True, True, False, True, False, False, True, False, False, True, True, False, False,
      False, True, False, True, True],
     [False, False, True, False, False, True, False, False, False, True, True, False, False,
      False, False, False, True, False, False, True, True, False, False, True, False, True, True,
      False, True, False, True, True],
     [True, False, True, False, False, False, False, True, True, False, True, False, True, True,
      False, False, False, True, True, True, False, False, False, False, False, False, True,
      False, True, True, True, True],
     [False, False, False, False, True, True, True, False, False, False, False, False, False,
      True, False, True, False, True, False, True, False, True, True, False, False, False, False,
      False, True, False, False, False],
     [False, True, True, False, True, False, False, False, True, False, False, False, False,
      False, True, True, False, False, True, False, False, True, False, True, True, False, False,
      True, True, False, False, False],
     [False, False, False, True, False, False, False, False, False, False, True, True, False,
      True, True, False, True, True, True, False, True, True, False, False, False, True, True,
      True, True, False, False, False],
     [False, False, True, True, False, False, True, False, True, True, True, False, True, True,
      True, False, False, False, False, True, False, False, True, False, True, True, True, False,
      False, True, False, False],
     [True, False, True, False, True, True, False, True, False, False, True, True, True, True,
      False, True, False, False, False, False, True, True, False, True, False, False, True,
      False, True, True, False, False],
     [True, True, False, False, True, True, False, True, False, False, True, True, False, False,
      False, False, False, False, True, True, True, False, False, False, True, False, False,
      True, True, True, False, False],
     [False, True, False, True, False, False, True, False, False, True, False, True, False, True,
      False, True, False, False, False, True, True, False, True, True, False, True, True, True,
      False, False, True, False],
     [True, True, True, True, False, False, True, False, False, True, False, True, False, False,
      True, True, False, False, True, True, True, False, False, True, True, True, False, True,
      True, False, True, False],
     [True, True, False, False, True, True, True, True, True, True, True, True, False, True,
      True, False, False, True, True, True, False, True, False, False, False, False, False, True,
      False, True, True, False],
     [False, True, True, True, False, True, True, True, False, True, False, False, False, False,
      False, True, True, True, True, True, False, False, False, True, False, False, True, False,
      True, True, True, False],
     [True, True, True, True, False, True, True, False, True, True, False, False, False, True,
      True, False, True, False, True, False, False, True, False, True, False, False, False, True,
      True, True, True, False],
     [False, False, True, False, True, False, False, False, False, False, False, True, True,
      True, True, False, False, False, False, True, False, False, True, True, False, False, True,
      False, False, False, False, True],
     [False, False, False, True, False, False, False, False, False, True, False, False, False,
      False, False, False, True, True, True, False, False, False, True, True, False, False, True,
      True, False, False, False, True],
     [False, True, False, True, True, True, True, True, True, True, True, True, True, True, True,
      True, False, True, True, True, True, True, False, True, False, False, False, False, True,
      False, False, True],
     [True, True, False, True, False, True, True, True, False, False, True, True, False, True,
      True, False, False, False, False, False, True, False, True, False, False, False, True,
      False, False, True, False, True],
     [True, True, True, False, True, True, True, True, True, True, False, False, False, True,
      False, True, True, False, False, True, True, True, True, True, False, True, True, True,
      True, True, False, True],
     [False, True, False, False, True, True, True, True, False, False, False, True, True, True,
      True, False, True, False, False, False, True, True, True, False, False, True, True, False,
      False, False, True, True]]"
  by (simp add: K256_def word_of_hex_def hex_val_def bits.simps)

lemma H256_bits:
  "H256 = [
     [True, True, True, False, False, True, True, False, False, True, True, False, False, True,
      True, True, True, False, False, True, False, False, False, False, False, True, False, True,
      False, True, True, False],
     [True, False, True, False, False, False, False, True, False, True, True, True, False, True,
      False, True, True, True, True, False, False, True, True, False, True, True, False, True,
      True, True, False, True],
     [False, True, False, False, True, True, True, False, True, True, False, False, True, True,
      True, True, False, True, True, True, False, True, True, False, False, False, True, True,
      True, True, False, False],
     [False, True, False, True, True, True, False, False, True, False, True, False, True, True,
      True, True, True, True, True, True, False, False, True, False, True, False, True, False,
      False, True, False, True],
     [True, True, True, True, True, True, True, False, False, True, False, False, True, False,
      True, False, False, True, True, True, False, False, False, False, True, False, False,
      False, True, False, True, False],
     [False, False, True, True, False, False, False, True, False, False, False, True, False,
      True, True, False, True, False, True, False, False, False, False, False, True, True, False,
      True, True, False, False, True],
     [True, True, False, True, False, True, False, True, True, False, False, True, True, False,
      True, True, True, True, False, False, False, False, False, True, True, True, True, True,
      True, False, False, False],
     [True, False, False, True, True, False, False, False, True, False, True, True, False, False,
      True, True, False, False, False, False, False, True, True, True, True, True, False, True,
      True, False, True, False]]"
  by (simp add: H256_def word_of_hex_def hex_val_def bits.simps)

definition sched_step8 :: "word32 list \<Rightarrow> word32 list" where
  "sched_step8 ws =
     sched_step (sched_step (sched_step (sched_step (sched_step (sched_step (sched_step (sched_step ws)))))))"

lemma schedule_48:
  "schedule 48 ws = sched_step8 (sched_step8 (sched_step8 (sched_step8 (sched_step8 (sched_step8 ws)))))"
  by (simp add: schedule.simps sched_step8_def)

lemmas sha_pre = sha256_def sha256_words_def pad_def pad_for_def zero_bytes.simps bits.simps

lemmas sha_eval = xor3_table majb_table chb_table Sigma0_32 Sigma1_32 sigma0_32 sigma1_32 Ch_32 Maj_32
  K256_bits H256_bits schedule_48 addc.simps add32_def sched_word.simps sched_step_def
  sched_step8_def
  round_out.simps round256.simps compress_def sha_blocks.simps zip_Cons_Cons zip_Nil
  foldl_Cons foldl_Nil list.map prod.case rev.simps append.simps

lemmas sha_post = hex32_def hexdigit_def

section \<open>Blocks, mining and the chain\<close>

text \<open>
  \<^verbatim>\<open>class Block\<close>: six fields; the constructor sets \<^verbatim>\<open>nonce = 0\<close> and computes the hash.
  \<^verbatim>\<open>computeHash\<close> digests the template literal
  \<^verbatim>\<open>${index}|${timestamp}|${JSON.stringify(data)}|${previousHash}|${nonce}\<close>.
\<close>

record block =
  index :: jsnum
  timestamp :: string
  data :: jsval
  previousHash :: string
  nonce :: jsnum
  hash :: string

text \<open>\<^verbatim>\<open>${JSON.stringify(data)}\<close>: the result \<^verbatim>\<open>undefined\<close> is rendered as that word.\<close>

definition data_text :: "jsval \<Rightarrow> string" where
  "data_text v = (case stringify v of None \<Rightarrow> ''undefined'' | Some t \<Rightarrow> t)"

definition blockString :: "block \<Rightarrow> string" where
  "blockString b =
     num_to_string (index b) @ ''|'' @ timestamp b @ ''|'' @ data_text (data b) @ ''|'' @
     previousHash b @ ''|'' @ num_to_string (nonce b)"

definition computeHash :: "block \<Rightarrow> string" where
  "computeHash b = sha256 (blockString b)"

definition Block :: "jsnum \<Rightarrow> string \<Rightarrow> jsval \<Rightarrow> string \<Rightarrow> block" where
  "Block i t d p =
     (let b = \<lparr>index = i, timestamp = t, data = d, previousHash = p, nonce = Fin 0, hash = []\<rparr>
      in b\<lparr>hash := computeHash b\<rparr>)"

text \<open>
  \<^verbatim>\<open>class Blockchain\<close>: a difficulty and the list of blocks. \<^verbatim>\<open>proofOfWork\<close> loops without
  a bound, so it is a partial function: \<open>None\<close> means that the loop never returns. The
  source mutates the block and returns its hash; the model returns the mutated block,
  whose \<open>hash\<close> field is the returned value.
\<close>

record blockchain =
  difficulty :: nat
  chain :: "block list"

definition targetPrefix :: "nat \<Rightarrow> string" where
  "targetPrefix d = replicate d CHR ''0''"

partial_function (option) proofOfWork :: "nat \<Rightarrow> block \<Rightarrow> block option" where
  "proofOfWork d b =
     (let b1 = b\<lparr>hash := computeHash b\<rparr> in
      if startsWith (hash b1) (targetPrefix d) then Some b1
      else proofOfWork d (b1\<lparr>nonce := num_succ (nonce b1)\<rparr>))"

text \<open>The constructor and \<^verbatim>\<open>addBlock\<close> read the clock (\<^verbatim>\<open>new Date().toISOString()\<close>):
  the time stamp is a parameter \<open>now\<close>.\<close>

definition creatGenBlock :: "nat \<Rightarrow> string \<Rightarrow> block option" where
  "creatGenBlock d now =
     proofOfWork d (Block (Fin 0) now (JObj [(''message'', JStr ''Genesis Block'')]) ''0'')"

definition Blockchain :: "nat \<Rightarrow> string \<Rightarrow> blockchain option" where
  "Blockchain d now =
     (case creatGenBlock d now of
        None \<Rightarrow> None
      | Some gen \<Rightarrow> Some \<lparr>difficulty = d, chain = [gen]\<rparr>)"

text \<open>\<^verbatim>\<open>getLastBlock\<close> is \<^verbatim>\<open>chain[chain.length - 1]\<close>: \<^verbatim>\<open>undefined\<close> (here \<open>None\<close>) on an empty
  chain, and then \<^verbatim>\<open>latest.index\<close> in \<^verbatim>\<open>addBlock\<close> throws.\<close>

definition getLastBlock :: "blockchain \<Rightarrow> block option" where
  "getLastBlock bc = (if chain bc = [] then None else Some (last (chain bc)))"

definition addBlock :: "blockchain \<Rightarrow> string \<Rightarrow> jsval \<Rightarrow> (error + blockchain \<times> block) option" where
  "addBlock bc now d =
     (case getLastBlock bc of
        None \<Rightarrow> Some (Inl TypeError)
      | Some latest \<Rightarrow>
          (case proofOfWork (difficulty bc) (Block (num_succ (index latest)) now d (hash latest)) of
             None \<Rightarrow> None
           | Some newBlock \<Rightarrow> Some (Inr (bc\<lparr>chain := chain bc @ [newBlock]\<rparr>, newBlock))))"

subsection \<open>Validation of the live chain\<close>

record detail =
  d_index :: jsnum
  isHashValid :: bool
  isPowValid :: bool
  isPrevValid :: bool
  isIndexValid :: bool
  blockValid :: bool
  cascaded :: bool

record 'd report =
  isValid :: bool
  invalidBlockIndices :: "jsnum list"
  details :: "'d list"

text \<open>The body of the loop of \<^verbatim>\<open>Blockchain.validateChain\<close> up to the entry it pushes, for
  position \<open>i\<close> and the current value of \<^verbatim>\<open>cascadeInvalid\<close>.\<close>

definition check_block :: "nat \<Rightarrow> block list \<Rightarrow> nat \<Rightarrow> bool \<Rightarrow> detail" where
  "check_block d ch i cascadeInvalid =
     (let current = ch ! i;
          recomputedHash = computeHash current;
          hashOk = (recomputedHash = hash current);
          powOk = startsWith (hash current) (targetPrefix d);
          indexOk = (if i = 0 then num_eq (index current) (Fin 0)
                     else num_eq (index current) (num_succ (index (ch ! (i - 1)))));
          prevOk = (if i = 0 then previousHash current = ''0''
                    else previousHash current = computeHash (ch ! (i - 1)))
      in \<lparr>d_index = index current, isHashValid = hashOk, isPowValid = powOk,
          isPrevValid = prevOk, isIndexValid = indexOk,
          blockValid = (\<not> cascadeInvalid \<and> hashOk \<and> powOk \<and> prevOk \<and> indexOk),
          cascaded = cascadeInvalid\<rparr>)"

function validate_loop ::
  "nat \<Rightarrow> block list \<Rightarrow> nat \<Rightarrow> bool \<Rightarrow> detail report \<Rightarrow> detail report" where
  "validate_loop d ch i cascadeInvalid result =
     (if i < length ch then
        (let entry = check_block d ch i cascadeInvalid;
             result1 = result\<lparr>details := details result @ [entry]\<rparr>
         in if \<not> blockValid entry
            then validate_loop d ch (i + 1) True
                   (result1\<lparr>isValid := False,
                            invalidBlockIndices := invalidBlockIndices result1 @ [d_index entry]\<rparr>)
            else validate_loop d ch (i + 1) cascadeInvalid result1)
      else result)"
  by pat_completeness auto
termination
  by (relation "measure (\<lambda>(d, ch, i, c, r). length ch - i)") auto

declare validate_loop.simps [simp del]

definition validateChain :: "blockchain \<Rightarrow> detail report" where
  "validateChain bc =
     validate_loop (difficulty bc) (chain bc) 0 False
       \<lparr>isValid = True, invalidBlockIndices = [], details = []\<rparr>"

section \<open>Validation of an uploaded chain\<close>

text \<open>
  The free function \<^verbatim>\<open>validateChain(chain, difficulty)\<close> checks an array of arbitrary
  parsed values against the difficulty and against the genesis block of the live chain
  (the global \<^verbatim>\<open>blockchain.chain\<close>, here the parameter \<open>server\<close>). The coercions
  \<^verbatim>\<open>Number(..)\<close> and \<^verbatim>\<open>String(..)\<close> can throw, so an iteration yields an error or an entry.
\<close>

record ext_detail = detail +
  matchesServerGenesis :: bool

definition and_then :: "error + 'a \<Rightarrow> ('a \<Rightarrow> error + 'b) \<Rightarrow> error + 'b" where
  "and_then m f = (case m of Inl e \<Rightarrow> Inl e | Inr x \<Rightarrow> f x)"

definition or_empty :: "jsval \<Rightarrow> jsval" where
  "or_empty v = (if truthy v then v else JObj [])"

text \<open>The block rebuilt from the previous array element: canonical keys only.\<close>

definition prev_block :: "jsval \<Rightarrow> error + block" where
  "prev_block v =
     (let prev = or_empty v in
      and_then (to_number (get_prop prev ''index'')) (\<lambda>pIndex.
      and_then (to_string (coalesce (get_prop prev ''timestamp'') (JStr []))) (\<lambda>pTime.
      and_then (to_string (coalesce (get_prop prev ''previousHash'') (JStr []))) (\<lambda>pPrev.
      and_then (to_number (coalesce (get_prop prev ''nonce'') (JNum (Fin 0)))) (\<lambda>pNonce.
      Inr ((Block pIndex pTime (get_prop prev ''data'') pPrev)\<lparr>nonce := pNonce\<rparr>))))))"

text \<open>The tolerant reads of the current element (the first lines of the loop body).\<close>

definition prevHashRaw :: "jsval \<Rightarrow> jsval" where
  "prevHashRaw raw =
     coalesce (coalesce (coalesce (get_prop raw ''previousHash'') (get_prop raw ''prevHash''))
       (get_prop raw ''prev_hash'')) (get_prop raw ''previous_hash'')"

definition hashRaw :: "jsval \<Rightarrow> jsval" where
  "hashRaw raw = coalesce (coalesce (get_prop raw ''hash'') (get_prop raw ''Hash'')) (get_prop raw ''HASH'')"

definition dataRaw :: "jsval \<Rightarrow> jsval" where
  "dataRaw raw = coalesce (get_prop raw ''data'') (get_prop raw ''Data'')"

definition indexRaw :: "jsval \<Rightarrow> jsval" where
  "indexRaw raw = coalesce (get_prop raw ''index'') (get_prop raw ''Index'')"

definition nonceRaw :: "jsval \<Rightarrow> jsval" where
  "nonceRaw raw = coalesce (get_prop raw ''nonce'') (get_prop raw ''Nonce'')"

definition timestampRaw :: "jsval \<Rightarrow> jsval" where
  "timestampRaw raw =
     coalesce (coalesce (get_prop raw ''timestamp'') (get_prop raw ''Timestamp'')) (get_prop raw ''time'')"

text \<open>The body of the loop for position \<open>i\<close>. (No value of the model is a \<^verbatim>\<open>Date\<close>, so the
  time stamp always takes the \<^verbatim>\<open>String(..)\<close> branch.)\<close>

definition check_record ::
  "block list \<Rightarrow> nat \<Rightarrow> jsval list \<Rightarrow> nat \<Rightarrow> bool \<Rightarrow> error + ext_detail" where
  "check_record server d ch i cascadeInvalid =
     (let raw = or_empty (ch ! i) in
      and_then (to_number (indexRaw raw)) (\<lambda>bIndex.
      and_then (to_string (coalesce (prevHashRaw raw) (JStr []))) (\<lambda>prevHashStr.
      and_then (to_string (coalesce (hashRaw raw) (JStr []))) (\<lambda>hashStr.
      and_then (to_string (coalesce (timestampRaw raw) (JStr []))) (\<lambda>timestampStr.
      and_then (to_number (coalesce (nonceRaw raw) (JNum (Fin 0)))) (\<lambda>nonceNum.
      let temp = (Block bIndex timestampStr (dataRaw raw) prevHashStr)\<lparr>nonce := nonceNum\<rparr>;
          reHash = computeHash temp;
          hashOk = (reHash = hashStr);
          powOk = startsWith hashStr (targetPrefix d)
      in
      and_then (if i = 0 then Inr (Fin (- 1)) else to_number (get_prop (ch ! (i - 1)) ''index''))
        (\<lambda>prevIndex.
      let indexOk = (if i = 0 then num_eq bIndex (Fin 0) else num_eq bIndex (num_succ prevIndex))
      in
      and_then (if i = 0 then Inr (prevHashStr = ''0'')
                else and_then (prev_block (ch ! (i - 1)))
                       (\<lambda>prevTemp. Inr (prevHashStr = computeHash prevTemp)))
        (\<lambda>prevOk.
      let genesisOk = (if i \<noteq> 0 \<or> server = [] then True else hashStr = hash (server ! 0))
      in Inr \<lparr>d_index = bIndex, isHashValid = hashOk, isPowValid = powOk,
              isPrevValid = prevOk, isIndexValid = indexOk,
              blockValid = (\<not> cascadeInvalid \<and> hashOk \<and> powOk \<and> prevOk \<and> indexOk \<and> genesisOk),
              cascaded = cascadeInvalid, matchesServerGenesis = genesisOk\<rparr>))))))))"

function ext_loop ::
  "block list \<Rightarrow> nat \<Rightarrow> jsval list \<Rightarrow> nat \<Rightarrow> bool \<Rightarrow> ext_detail report \<Rightarrow> error + ext_detail report"
where
  "ext_loop server d ch i cascadeInvalid result =
     (if i < length ch then
        (case check_record server d ch i cascadeInvalid of
           Inl e \<Rightarrow> Inl e
         | Inr entry \<Rightarrow>
             (let result1 = result\<lparr>details := details result @ [entry]\<rparr>
              in if \<not> blockValid entry
                 then ext_loop server d ch (i + 1) True
                        (result1\<lparr>isValid := False,
                                 invalidBlockIndices := invalidBlockIndices result1 @ [d_index entry]\<rparr>)
                 else ext_loop server d ch (i + 1) cascadeInvalid result1))
      else Inr result)"
  by pat_completeness auto
termination
  by (relation "measure (\<lambda>(s, d, ch, i, c, r). length ch - i)") auto

declare ext_loop.simps [simp del]

definition validate_external_chain ::
  "block list \<Rightarrow> jsval list \<Rightarrow> nat \<Rightarrow> error + ext_detail report" where
  "validate_external_chain server ch d =
     ext_loop server d ch 0 False \<lparr>isValid = True, invalidBlockIndices = [], details = []\<rparr>"

section \<open>Reading an uploaded file\<close>

text \<open>
  \<^verbatim>\<open>parseUpChain\<close> reads the file and tries three encodings in turn. \<^verbatim>\<open>JSON.parse\<close> and
  \<^verbatim>\<open>yaml.load\<close> are library code: they are parameters of the model, functions from the text
  to the parsed value, \<open>None\<close> when they throw (the program catches every exception of both
  and goes on). The model starts from the content of the file, read as ASCII text.

  The two tests applied to a parsed document: it is an array, or it is truthy and its
  property \<^verbatim>\<open>chain\<close> is an array.
\<close>

definition chain_of :: "jsval \<Rightarrow> jsval list option" where
  "chain_of parsed =
     (case parsed of
        JArr xs \<Rightarrow> Some xs
      | _ \<Rightarrow>
          (if truthy parsed then (case get_prop parsed ''chain'' of JArr ys \<Rightarrow> Some ys | _ \<Rightarrow> None)
           else None))"

text \<open>
  The text format. The content is split at the regular expression
  \<^verbatim>\<open>/\n---\n|\n---\r?\n|\r?\n---\r?\n/\<close>: at each position the three alternatives are tried in
  this order, and the search goes on after the text matched.
\<close>

fun drop_prefix :: "string \<Rightarrow> string \<Rightarrow> string option" where
  "drop_prefix [] s = Some s"
| "drop_prefix (p # ps) [] = None"
| "drop_prefix (p # ps) (c # cs) = (if p = c then drop_prefix ps cs else None)"

definition line_break :: "string \<Rightarrow> string option" where
  "line_break s =
     (case drop_prefix [CHR 0x0D, CHR 0x0A] s of
        Some r \<Rightarrow> Some r
      | None \<Rightarrow> drop_prefix [CHR 0x0A] s)"

definition separator :: "string \<Rightarrow> string option" where
  "separator s =
     (case drop_prefix [CHR 0x0A, CHR ''-'', CHR ''-'', CHR ''-'', CHR 0x0A] s of
        Some r \<Rightarrow> Some r
      | None \<Rightarrow>
          (case Option.bind (drop_prefix [CHR 0x0A, CHR ''-'', CHR ''-'', CHR ''-''] s) line_break of
             Some r \<Rightarrow> Some r
           | None \<Rightarrow> Option.bind (Option.bind (line_break s) (drop_prefix ''---'')) line_break))"

lemma drop_prefix_Some: "drop_prefix p s = Some r \<longleftrightarrow> s = p @ r"
  by (induction p s rule: drop_prefix.induct) auto

lemma line_break_shorter: "line_break s = Some r \<Longrightarrow> length r < length s"
  by (auto simp add: line_break_def drop_prefix_Some split: option.splits)

lemma separator_shorter: "separator s = Some r \<Longrightarrow> length r < length s"
  by (auto simp add: separator_def drop_prefix_Some Option.bind_eq_Some_conv
        split: option.splits dest!: line_break_shorter)

text \<open>\<^verbatim>\<open>raw.split(...)\<close>: the text before the first separator, then the sections of the rest.\<close>

function split_sections :: "string \<Rightarrow> string list" where
  "split_sections [] = [[]]"
| "split_sections (c # cs) =
     (case separator (c # cs) of
        Some r \<Rightarrow> [] # split_sections r
      | None \<Rightarrow> (case split_sections cs of x # xs \<Rightarrow> (c # x) # xs | [] \<Rightarrow> [[c]]))"
  by pat_completeness auto

termination
  by (relation "measure length") (auto dest: separator_shorter)

text \<open>
  \<^verbatim>\<open>getLine(label)\<close> matches \<^verbatim>\<open>^label:\s*(.*)$\<close> with the flags \<^verbatim>\<open>m\<close> and \<^verbatim>\<open>i\<close> in the trimmed
  section: the first place at the start of a line where the label and a colon stand, in
  any case of the letters; after it all white space is skipped, line ends included, and
  the capture runs to the end of that line. \<open>None\<close> is \<^verbatim>\<open>undefined\<close>.
\<close>

definition is_line_end :: "char \<Rightarrow> bool" where
  "is_line_end c = (c = CHR 0x0A \<or> c = CHR 0x0D)"

definition upper_char :: "char \<Rightarrow> char" where
  "upper_char c =
     (case map_of (zip ''abcdefghijklmnopqrstuvwxyz'' ''ABCDEFGHIJKLMNOPQRSTUVWXYZ'') c of
        Some u \<Rightarrow> u
      | None \<Rightarrow> c)"

fun match_ci :: "string \<Rightarrow> string \<Rightarrow> string option" where
  "match_ci [] s = Some s"
| "match_ci (p # ps) [] = None"
| "match_ci (p # ps) (c # cs) = (if upper_char p = upper_char c then match_ci ps cs else None)"

fun find_line :: "string \<Rightarrow> bool \<Rightarrow> string \<Rightarrow> string option" where
  "find_line pat bol [] = (if bol then match_ci pat [] else None)"
| "find_line pat bol (c # cs) =
     (case (if bol then match_ci pat (c # cs) else None) of
        Some r \<Rightarrow> Some r
      | None \<Rightarrow> find_line pat (is_line_end c) cs)"

definition getLine :: "string \<Rightarrow> string \<Rightarrow> string option" where
  "getLine s label =
     (case find_line (label @ '':'') True s of
        None \<Rightarrow> None
      | Some r \<Rightarrow> Some (trim (takeWhile (\<lambda>c. \<not> is_line_end c) (dropWhile is_space r))))"

text \<open>
  One turn of the loop over the sections: \<open>None\<close> when the section is skipped (it is blank,
  or has no \<^verbatim>\<open>Index\<close> line, or no \<^verbatim>\<open>Nonce\<close> line), else the object that is pushed. The
  payload is \<^verbatim>\<open>JSON.parse(dataStr)\<close> when that succeeds (\<^verbatim>\<open>dataStr\<close> is converted to a
  string first), else \<^verbatim>\<open>dataStr\<close> itself.
\<close>

definition opt_text :: "string option \<Rightarrow> jsval" where
  "opt_text t = (case t of None \<Rightarrow> JUndefined | Some x \<Rightarrow> JStr x)"

definition text_block :: "(string \<Rightarrow> jsval option) \<Rightarrow> string \<Rightarrow> jsval option" where
  "text_block json_parse section =
     (let s = trim section in
      if s = [] then None
      else
        (case (getLine s ''Index'', getLine s ''Nonce'') of
           (Some indexStr, Some nonceStr) \<Rightarrow>
             Some (JObj
               [(''index'', JNum (str_to_num indexStr)),
                (''timestamp'', opt_text (getLine s ''Timestamp'')),
                (''previousHash'', opt_text (getLine s ''Previous Hash'')),
                (''hash'', opt_text (getLine s ''Hash'')),
                (''data'',
                   (case json_parse (case getLine s ''Data'' of None \<Rightarrow> ''undefined'' | Some t \<Rightarrow> t) of
                      Some v \<Rightarrow> v
                    | None \<Rightarrow> opt_text (getLine s ''Data''))),
                (''nonce'', JNum (str_to_num nonceStr))])
         | _ \<Rightarrow> None))"

text \<open>\<^verbatim>\<open>parseUpChain\<close>, from the content of the file to the array \<^verbatim>\<open>chain\<close> of its result.\<close>

definition parseUpChain ::
  "(string \<Rightarrow> jsval option) \<Rightarrow> (string \<Rightarrow> jsval option) \<Rightarrow> string \<Rightarrow> error + jsval list"
where
  "parseUpChain json_parse yaml_load raw =
     (case Option.bind (json_parse raw) chain_of of
        Some c \<Rightarrow> Inr c
      | None \<Rightarrow>
          (case Option.bind (yaml_load raw) chain_of of
             Some c \<Rightarrow> Inr c
           | None \<Rightarrow>
               (let blocks = List.map_filter (text_block json_parse) (split_sections raw) in
                if blocks \<noteq> [] then Inr blocks
                else Inl (Error ''Unsupported or malformed blockchain file''))))"

section \<open>Auxiliary facts\<close>

subsection \<open>The digest has 64 characters\<close>

lemma length_xorw [simp]: "length (xorw a b) = min (length a) (length b)"
  by (induction a b rule: xorw.induct) simp_all

lemma length_andw [simp]: "length (andw a b) = min (length a) (length b)"
  by (induction a b rule: andw.induct) simp_all

lemma length_addc [simp]: "length (addc c a b) = min (length a) (length b)"
  by (induction c a b rule: addc.induct) simp_all

lemma length_add32 [simp]: "length (add32 a b) = min (length a) (length b)"
  by (simp add: add32_def)

lemma length_rotr [simp]: "length (rotr n w) = length w"
  by (simp add: rotr_def)

lemma length_shr [simp]: "length (shr n w) = length w"
  by (simp add: shr_def)

lemma length_bits [simp]: "length (bits k n) = k"
  by (induction k n rule: bits.induct) (subst bits.simps, simp)

lemma length_sigmas [simp]:
  "length (Sigma0 x) = length x" "length (Sigma1 x) = length x"
  "length (sigma0 x) = length x" "length (sigma1 x) = length x"
  by (simp_all add: Sigma0_def Sigma1_def sigma0_def sigma1_def)

lemma length_Ch [simp]: "length (Ch x y z) = min (length x) (min (length y) (length z))"
  by (simp add: Ch_def notw_def)

lemma length_Maj [simp]: "length (Maj x y z) = min (length x) (min (length y) (length z))"
  by (simp add: Maj_def)

definition words32 :: "word32 list \<Rightarrow> bool" where
  "words32 ws = list_all (\<lambda>w. length w = 32) ws"

lemma words32_simps [simp]:
  "words32 []" "words32 (w # ws) = (length w = 32 \<and> words32 ws)"
  "words32 (xs @ ys) = (words32 xs \<and> words32 ys)" "words32 (rev xs) = words32 xs"
  by (auto simp add: words32_def)

lemma sched_word_32: "words32 ws \<Longrightarrow> 16 \<le> length ws \<Longrightarrow> length (sched_word ws) = 32"
  by (cases ws rule: sched_word.cases) simp_all

lemma schedule_32:
  "words32 ws \<Longrightarrow> 16 \<le> length ws \<Longrightarrow>
   words32 (schedule n ws) \<and> length (schedule n ws) = length ws + n"
proof (induction n ws rule: schedule.induct)
  case (1 n ws)
  show ?case
  proof (cases "n = 0")
    case True
    with 1 show ?thesis by (simp add: schedule.simps)
  next
    case False
    have "words32 (sched_step ws)" "16 \<le> length (sched_step ws)"
      using "1.prems" by (simp_all add: sched_step_def sched_word_32)
    from "1.IH" [OF False this] False show ?thesis
      by (subst (1 2) schedule.simps) (simp add: sched_step_def)
  qed
qed

definition state32 :: "word32 list \<Rightarrow> bool" where
  "state32 s = (length s = 8 \<and> words32 s)"

lemma round256_32:
  "state32 s \<Longrightarrow> length k = 32 \<Longrightarrow> length w = 32 \<Longrightarrow> state32 (round256 s (k, w))"
  by (cases "(s, (k, w))" rule: round256.cases) (simp_all add: state32_def)

lemma foldl_round256_32:
  "state32 s \<Longrightarrow> list_all (\<lambda>(k, w). length k = 32 \<and> length w = 32) kws \<Longrightarrow>
   state32 (foldl round256 s kws)"
  by (induction kws arbitrary: s) (auto simp add: round256_32)

lemma K256_32: "words32 K256"
  by (simp add: K256_def words32_def list_all_iff word_of_hex_def)

lemma H256_32: "state32 H256"
  by (simp add: H256_def state32_def words32_def list_all_iff word_of_hex_def)

lemma zip_32:
  "words32 ks \<Longrightarrow> words32 ws \<Longrightarrow> list_all (\<lambda>(k, w). length k = 32 \<and> length w = 32) (zip ks ws)"
  by (induction ks ws rule: list_induct2') simp_all

lemma map2_add32_32:
  "words32 hs \<Longrightarrow> words32 s \<Longrightarrow> length hs = length s \<Longrightarrow>
   words32 (map2 add32 hs s) \<and> length (map2 add32 hs s) = length hs"
  by (induction hs s rule: list_induct2') simp_all

lemma compress_32:
  assumes "state32 hs" "words32 m" "length m = 16"
  shows "state32 (compress hs m)"
proof -
  have "words32 (schedule 48 (rev m))"
    using schedule_32 [of "rev m" 48] assms by simp
  then have "state32 (foldl round256 hs (zip K256 (rev (schedule 48 (rev m)))))"
    using assms(1) K256_32 by (intro foldl_round256_32 zip_32) simp_all
  then show ?thesis
    using assms(1) map2_add32_32 [of hs "foldl round256 hs (zip K256 (rev (schedule 48 (rev m))))"]
    by (simp add: compress_def state32_def)
qed

lemma sha_blocks_32: "state32 hs \<Longrightarrow> words32 ws \<Longrightarrow> state32 (sha_blocks hs ws)"
  by (induction hs ws rule: sha_blocks.induct) (simp_all add: compress_32)

lemma length_bits_of_char [simp]: "length (bits_of_char c) = 8"
  by (cases c) simp

lemma be32_32: "list_all (\<lambda>b. length b = 8) bs \<Longrightarrow> words32 (be32 bs)"
  by (induction bs rule: be32.induct) simp_all

lemma zero_bytes_8: "list_all (\<lambda>b. length b = 8) (zero_bytes n)"
  by (induction n rule: zero_bytes.induct) (subst zero_bytes.simps, simp)

lemma pad_8: "list_all (\<lambda>b. length b = 8) (pad s)"
  using zero_bytes_8 [of "(119 - len_from 0 s mod 64) mod 64"]
  by (auto simp add: pad_def pad_for_def list_all_iff)

lemma length_hexs: "length (hexs w) = length w div 4"
  by (induction w rule: hexs.induct) simp_all

lemma length_concat_hex:
  "words32 ws \<Longrightarrow> length (concat (map hex32 ws)) = 8 * length ws"
  by (induction ws) (simp_all add: hex32_def length_hexs)

lemma length_sha256: "length (sha256 s) = 64"
proof -
  have "state32 (sha256_words s)"
    unfolding sha256_words_def by (intro sha_blocks_32 H256_32 be32_32 pad_8)
  then show ?thesis
    by (simp add: sha256_def state32_def length_concat_hex)
qed

subsection \<open>The two validation loops\<close>

text \<open>
  Both loops keep the same invariant. After \<open>n\<close> iterations the report holds \<open>n\<close>
  entries; entry \<open>k\<close> is what the loop body computes at position \<open>k\<close> when
  \<^verbatim>\<open>cascadeInvalid\<close> is "some earlier entry is invalid"; the invalid indices are those of
  the invalid entries, in order; and \<open>isValid\<close> says that no entry is invalid.
\<close>

definition report_inv ::
  "(nat \<Rightarrow> bool \<Rightarrow> error + 'a detail_scheme) \<Rightarrow> nat \<Rightarrow> 'a detail_scheme report \<Rightarrow> bool" where
  "report_inv chk n r =
     (length (details r) = n \<and>
      (\<forall>k<n. chk k (\<not> list_all blockValid (take k (details r))) = Inr (details r ! k)) \<and>
      invalidBlockIndices r = map d_index (filter (\<lambda>e. \<not> blockValid e) (details r)) \<and>
      isValid r = list_all blockValid (details r))"

lemma report_inv_init:
  "report_inv chk 0 \<lparr>isValid = True, invalidBlockIndices = [], details = []\<rparr>"
  by (simp add: report_inv_def)

lemma report_inv_step:
  assumes "report_inv chk i res"
    and "chk i (\<not> list_all blockValid (details res)) = Inr e"
  shows "report_inv chk (Suc i)
           (if \<not> blockValid e
            then res\<lparr>details := details res @ [e], isValid := False,
                     invalidBlockIndices := invalidBlockIndices res @ [d_index e]\<rparr>
            else res\<lparr>details := details res @ [e]\<rparr>)"
  using assms
  by (auto simp add: report_inv_def nth_append less_Suc_eq)

lemma validate_loop_inv:
  "report_inv (\<lambda>k c. Inr (check_block d ch k c)) i res \<Longrightarrow>
   c = (\<not> list_all blockValid (details res)) \<Longrightarrow>
   report_inv (\<lambda>k c. Inr (check_block d ch k c)) (max i (length ch)) (validate_loop d ch i c res)"
proof (induction d ch i c res rule: validate_loop.induct)
  case (1 d ch i c res)
  show ?case
  proof (cases "i < length ch")
    case False
    with 1 show ?thesis by (simp add: validate_loop.simps max_def)
  next
    case True
    let ?e = "check_block d ch i c"
    let ?res = "if \<not> blockValid ?e
            then res\<lparr>details := details res @ [?e], isValid := False,
                     invalidBlockIndices := invalidBlockIndices res @ [d_index ?e]\<rparr>
            else res\<lparr>details := details res @ [?e]\<rparr>"
    have inv: "report_inv (\<lambda>k c. Inr (check_block d ch k c)) (Suc i) ?res"
      using report_inv_step [OF "1.prems"(1), of ?e] "1.prems"(2) by simp
    have m: "max (Suc i) (length ch) = max i (length ch)" using True by simp
    show ?thesis
    proof (cases "blockValid ?e")
      case False
      have "report_inv (\<lambda>k c. Inr (check_block d ch k c)) (max (i + 1) (length ch))
              (validate_loop d ch (i + 1) True ?res)"
        using "1.IH"(1) [OF True refl refl] False inv by simp
      then show ?thesis using True False m
        by (subst validate_loop.simps) (simp add: Let_def)
    next
      case good: True
      have "report_inv (\<lambda>k c. Inr (check_block d ch k c)) (max (i + 1) (length ch))
              (validate_loop d ch (i + 1) c ?res)"
        using "1.IH"(2) [OF True refl refl] good inv "1.prems"(2) by simp
      then show ?thesis using True good m
        by (subst validate_loop.simps) (simp add: Let_def)
    qed
  qed
qed

lemma validateChain_inv:
  "report_inv (\<lambda>k c. Inr (check_block (difficulty bc) (chain bc) k c)) (length (chain bc)) (validateChain bc)"
  using validate_loop_inv [OF report_inv_init, of False "difficulty bc" "chain bc"]
  by (simp add: validateChain_def)

lemma ext_loop_inv:
  "report_inv (check_record server d ch) i res \<Longrightarrow>
   c = (\<not> list_all blockValid (details res)) \<Longrightarrow>
   ext_loop server d ch i c res = Inr r \<Longrightarrow>
   report_inv (check_record server d ch) (max i (length ch)) r"
proof (induction server d ch i c res rule: ext_loop.induct)
  case (1 server d ch i c res)
  show ?case
  proof (cases "i < length ch")
    case False
    with 1 show ?thesis by (simp add: ext_loop.simps max_def)
  next
    case True
    from "1.prems"(3) True obtain e where e: "check_record server d ch i c = Inr e"
      by (subst (asm) ext_loop.simps) (auto split: sum.splits)
    let ?res = "if \<not> blockValid e
            then res\<lparr>details := details res @ [e], isValid := False,
                     invalidBlockIndices := invalidBlockIndices res @ [d_index e]\<rparr>
            else res\<lparr>details := details res @ [e]\<rparr>"
    have inv: "report_inv (check_record server d ch) (Suc i) ?res"
      using report_inv_step [OF "1.prems"(1), of e] "1.prems"(2) e by simp
    have m: "max (Suc i) (length ch) = max i (length ch)" using True by simp
    show ?thesis
    proof (cases "blockValid e")
      case False
      have run: "ext_loop server d ch (i + 1) True ?res = Inr r"
        using "1.prems"(3) True e False
        by (subst (asm) ext_loop.simps) (simp add: Let_def)
      have run': "ext_loop server d ch (i + 1) True
           ((res\<lparr>details := details res @ [e]\<rparr>)\<lparr>isValid := False,
              invalidBlockIndices := invalidBlockIndices (res\<lparr>details := details res @ [e]\<rparr>) @ [d_index e]\<rparr>) = Inr r"
        using run False by simp
      show ?thesis
        using "1.IH"(1) [OF True e refl False _ _ run'] False inv m by simp
    next
      case good: True
      have run: "ext_loop server d ch (i + 1) c ?res = Inr r"
        using "1.prems"(3) True e good
        by (subst (asm) ext_loop.simps) (simp add: Let_def)
      have run': "ext_loop server d ch (i + 1) c (res\<lparr>details := details res @ [e]\<rparr>) = Inr r"
        using run good by simp
      have nb: "\<not> \<not> blockValid e" using good by simp
      show ?thesis
        using "1.IH"(2) [OF True e refl nb _ _ run'] good inv m "1.prems"(2) by simp
    qed
  qed
qed


lemma validate_external_chain_inv:
  "validate_external_chain server ch d = Inr r \<Longrightarrow>
   report_inv (check_record server d ch) (length ch) r"
  using ext_loop_inv [OF report_inv_init, of False server d ch r]
  by (simp add: validate_external_chain_def)


subsection \<open>Reading a report\<close>

lemma not_list_all_take:
  "k \<le> length xs \<Longrightarrow> (\<not> list_all P (take k xs)) = (\<exists>m<k. \<not> P (xs ! m))"
  by (auto simp add: list_all_length)

lemma report_inv_entry:
  assumes "report_inv chk n r" and "k < n"
  shows "chk k (\<exists>m<k. \<not> blockValid (details r ! m)) = Inr (details r ! k)"
proof -
  have le: "k \<le> length (details r)" using assms by (simp add: report_inv_def)
  have "chk k (\<not> list_all blockValid (take k (details r))) = Inr (details r ! k)"
    using assms by (simp add: report_inv_def)
  then show ?thesis unfolding not_list_all_take [OF le] .
qed

lemma cascaded_check_block [simp]: "cascaded (check_block d ch i c) = c"
  and d_index_check_block [simp]: "d_index (check_block d ch i c) = index (ch ! i)"
  and blockValid_check_block_cascaded: "c \<Longrightarrow> \<not> blockValid (check_block d ch i c)"
  and isHashValid_check_block [simp]:
    "isHashValid (check_block d ch i c) = (computeHash (ch ! i) = hash (ch ! i))"
  and isPrevValid_check_block [simp]:
    "isPrevValid (check_block d ch i c) =
       (if i = 0 then previousHash (ch ! i) = ''0''
        else previousHash (ch ! i) = computeHash (ch ! (i - 1)))"
  and blockValid_check_block_hash: "blockValid (check_block d ch i c) \<Longrightarrow> computeHash (ch ! i) = hash (ch ! i)"
  by (simp_all add: check_block_def Let_def)

lemma validateChain_entry:
  assumes "k < length (chain bc)"
  shows "details (validateChain bc) ! k =
           check_block (difficulty bc) (chain bc) k (\<exists>m<k. \<not> blockValid (details (validateChain bc) ! m))"
  using report_inv_entry [OF validateChain_inv assms] by simp

lemma validateChain_length [simp]: "length (details (validateChain bc)) = length (chain bc)"
  using validateChain_inv [of bc] by (simp add: report_inv_def)

lemma validateChain_invalid:
  "invalidBlockIndices (validateChain bc) =
     map d_index (filter (\<lambda>e. \<not> blockValid e) (details (validateChain bc)))"
  using validateChain_inv [of bc] by (simp add: report_inv_def)


lemma check_record_cascaded:
  "check_record server d ch i c = Inr e \<Longrightarrow>
   cascaded e = c \<and> (c \<longrightarrow> \<not> blockValid e) \<and>
   to_number (indexRaw (or_empty (ch ! i))) = Inr (d_index e)"
  by (auto simp add: check_record_def and_then_def Let_def split: sum.splits if_splits)

lemma external_entry:
  assumes "validate_external_chain server ch d = Inr r" and "k < length ch"
  shows "check_record server d ch k (\<exists>m<k. \<not> blockValid (details r ! m)) = Inr (details r ! k)"
  using report_inv_entry [OF validate_external_chain_inv [OF assms(1)] assms(2)] .

lemma external_length:
  "validate_external_chain server ch d = Inr r \<Longrightarrow> length (details r) = length ch"
  using validate_external_chain_inv [of server ch d r] by (simp add: report_inv_def)

lemma external_invalid:
  "validate_external_chain server ch d = Inr r \<Longrightarrow>
   invalidBlockIndices r = map d_index (filter (\<lambda>e. \<not> blockValid e) (details r))"
  using validate_external_chain_inv [of server ch d r] by (simp add: report_inv_def)

lemma external_isValid:
  "validate_external_chain server ch d = Inr r \<Longrightarrow>
   isValid r = (\<forall>k<length ch. blockValid (details r ! k))"
  using validate_external_chain_inv [of server ch d r] by (simp add: report_inv_def list_all_length)

lemma cascade_spreads:
  assumes "\<And>j::nat. j < n \<Longrightarrow> casc j = (\<exists>k<j. \<not> bv k) \<and> (casc j \<longrightarrow> \<not> bv j)"
  shows "\<forall>k j. k < j \<and> j < n \<and> \<not> bv k \<longrightarrow> casc j \<and> \<not> bv j"
proof (intro allI impI)
  fix k j :: nat
  assume a: "k < j \<and> j < n \<and> \<not> bv k"
  then have "casc j = (\<exists>k<j. \<not> bv k)" "casc j \<longrightarrow> \<not> bv j" using assms by blast+
  with a show "casc j \<and> \<not> bv j" by blast
qed

lemma validateChain_flags:
  assumes j: "j < length (chain bc)"
  shows "d_index (details (validateChain bc) ! j) = index (chain bc ! j) \<and>
         cascaded (details (validateChain bc) ! j) =
           (\<exists>k<j. \<not> blockValid (details (validateChain bc) ! k)) \<and>
         (cascaded (details (validateChain bc) ! j) \<longrightarrow> \<not> blockValid (details (validateChain bc) ! j))"
proof -
  let ?r = "validateChain bc"
  let ?c = "\<exists>k<j. \<not> blockValid (details ?r ! k)"
  have e: "details ?r ! j = check_block (difficulty bc) (chain bc) j ?c"
    by (rule validateChain_entry [OF j])
  have 1: "cascaded (details ?r ! j) = ?c" by (subst e) simp
  have 2: "d_index (details ?r ! j) = index (chain bc ! j)" by (subst e) simp
  have 3: "?c \<longrightarrow> \<not> blockValid (details ?r ! j)"
    using blockValid_check_block_cascaded [of ?c "difficulty bc" "chain bc" j] e by simp
  from 1 2 3 show ?thesis by simp
qed

lemma external_flags:
  assumes run: "validate_external_chain server ch d = Inr r" and j: "j < length ch"
  shows "to_number (indexRaw (or_empty (ch ! j))) = Inr (d_index (details r ! j)) \<and>
         cascaded (details r ! j) = (\<exists>k<j. \<not> blockValid (details r ! k)) \<and>
         (cascaded (details r ! j) \<longrightarrow> \<not> blockValid (details r ! j))"
  using check_record_cascaded [OF external_entry [OF run j]] by blast

subsection \<open>The text that is hashed\<close>








lemma blockString_hash_update [simp]: "blockString (b\<lparr>hash := h\<rparr>) = blockString b"
  by (simp add: blockString_def)






subsection \<open>Mining\<close>

text \<open>
  \<open>nonce_after k b\<close> is \<open>b\<close> after \<open>k\<close> increments of its nonce, \<open>pow_hit\<close> says that a block's
  recomputed hash meets the target, and \<open>mined k b\<close> is the block the loop returns when it
  stops after \<open>k\<close> failures. The loop returns exactly when some candidate meets the target,
  and then at the first one.
\<close>

lemma startsWith_iff: "startsWith s p = (take (length p) s = p)"
  by (induction s p rule: startsWith.induct) auto

lemma computeHash_hash_update [simp]: "computeHash (b\<lparr>hash := h\<rparr>) = computeHash b"
  by (simp add: computeHash_def blockString_def)

definition nonce_after :: "nat \<Rightarrow> block \<Rightarrow> block" where
  "nonce_after k b = b\<lparr>nonce := (num_succ ^^ k) (nonce b)\<rparr>"

definition pow_hit :: "nat \<Rightarrow> block \<Rightarrow> bool" where
  "pow_hit d b = startsWith (computeHash b) (targetPrefix d)"

definition mined :: "nat \<Rightarrow> block \<Rightarrow> block" where
  "mined k b = (nonce_after k b)\<lparr>hash := computeHash (nonce_after k b)\<rparr>"

lemma computeHash_hash_nonce_update [simp]:
  "computeHash (b\<lparr>hash := h, nonce := n\<rparr>) = computeHash (b\<lparr>nonce := n\<rparr>)"
  by (simp add: computeHash_def blockString_def)

lemma pow_hit_hash_update [simp]: "pow_hit d (b\<lparr>hash := h\<rparr>) = pow_hit d b"
  by (simp add: pow_hit_def)

lemma proofOfWork_hit: "pow_hit d b \<Longrightarrow> proofOfWork d b = Some (b\<lparr>hash := computeHash b\<rparr>)"
  by (subst proofOfWork.simps) (simp add: pow_hit_def)

lemma proofOfWork_miss:
  "\<not> pow_hit d b \<Longrightarrow>
   proofOfWork d b = proofOfWork d (b\<lparr>hash := computeHash b, nonce := num_succ (nonce b)\<rparr>)"
  by (subst proofOfWork.simps) (simp add: pow_hit_def)

lemma nonce_after_0 [simp]: "nonce_after 0 b = b"
  by (simp add: nonce_after_def)

lemma nonce_after_Suc:
  "nonce_after (Suc k) b = (nonce_after k (b\<lparr>hash := h, nonce := num_succ (nonce b)\<rparr>))\<lparr>hash := hash b\<rparr>"
  by (simp add: nonce_after_def funpow_swap1)

lemma mined_Suc: "mined (Suc k) b = mined k (b\<lparr>hash := h, nonce := num_succ (nonce b)\<rparr>)"
  by (simp add: mined_def nonce_after_def funpow_swap1)

lemma pow_hit_Suc:
  "pow_hit d (nonce_after (Suc k) b) = pow_hit d (nonce_after k (b\<lparr>hash := h, nonce := num_succ (nonce b)\<rparr>))"
  by (simp add: nonce_after_Suc [of k b h])

lemma proofOfWork_found:
  "pow_hit d (nonce_after k b) \<Longrightarrow> (\<forall>j<k. \<not> pow_hit d (nonce_after j b)) \<Longrightarrow>
   proofOfWork d b = Some (mined k b)"
proof (induction k arbitrary: b)
  case 0
  then show ?case by (simp add: proofOfWork_hit mined_def)
next
  case (Suc k)
  let ?b = "b\<lparr>hash := computeHash b, nonce := num_succ (nonce b)\<rparr>"
  from Suc.prems(2) have miss: "\<not> pow_hit d b" by force
  have hit: "pow_hit d (nonce_after k ?b)"
    using Suc.prems(1) by (simp add: pow_hit_Suc [of d k b "computeHash b"])
  have none: "\<forall>j<k. \<not> pow_hit d (nonce_after j ?b)"
  proof (intro allI impI)
    fix j assume "j < k"
    then have "\<not> pow_hit d (nonce_after (Suc j) b)" using Suc.prems(2) by simp
    then show "\<not> pow_hit d (nonce_after j ?b)"
      by (simp add: pow_hit_Suc [of d j b "computeHash b"])
  qed
  show ?case
    using Suc.IH [OF hit none] miss
    by (simp add: proofOfWork_miss mined_Suc [of k b "computeHash b"])
qed

lemma proofOfWork_returns:
  assumes "proofOfWork d b = Some b'"
  shows "\<exists>k. pow_hit d (nonce_after k b) \<and> (\<forall>j<k. \<not> pow_hit d (nonce_after j b)) \<and> b' = mined k b"
proof (rule proofOfWork.raw_induct [OF _ assms])
  fix pow d b b'
  assume IH: "\<And>d b y. pow d b = Some y \<Longrightarrow>
     \<exists>k. pow_hit d (nonce_after k b) \<and> (\<forall>j<k. \<not> pow_hit d (nonce_after j b)) \<and> y = mined k b"
  assume body: "(let b1 = b\<lparr>hash := computeHash b\<rparr> in
      if startsWith (hash b1) (targetPrefix d) then Some b1
      else pow d (b1\<lparr>nonce := num_succ (nonce b1)\<rparr>)) = Some b'"
  show "\<exists>k. pow_hit d (nonce_after k b) \<and> (\<forall>j<k. \<not> pow_hit d (nonce_after j b)) \<and> b' = mined k b"
  proof (cases "pow_hit d b")
    case True
    with body have "b' = mined 0 b" by (simp add: pow_hit_def mined_def Let_def)
    with True show ?thesis by (intro exI [of _ 0]) simp
  next
    case False
    let ?b = "b\<lparr>hash := computeHash b, nonce := num_succ (nonce b)\<rparr>"
    from body False have "pow d ?b = Some b'" by (simp add: pow_hit_def Let_def)
    from IH [OF this] obtain k where
      k: "pow_hit d (nonce_after k ?b)" "\<forall>j<k. \<not> pow_hit d (nonce_after j ?b)" "b' = mined k ?b"
      by blast
    have "pow_hit d (nonce_after (Suc k) b)"
      using k(1) by (simp add: pow_hit_Suc [of d k b "computeHash b"])
    moreover have "\<forall>j<Suc k. \<not> pow_hit d (nonce_after j b)"
    proof (intro allI impI)
      fix j assume j: "j < Suc k"
      show "\<not> pow_hit d (nonce_after j b)"
      proof (cases j)
        case 0 with False show ?thesis by simp
      next
        case (Suc m)
        with j k(2) have "\<not> pow_hit d (nonce_after m ?b)" by simp
        then show ?thesis using Suc by (simp add: pow_hit_Suc [of d m b "computeHash b"])
      qed
    qed
    moreover have "b' = mined (Suc k) b" using k(3) by (simp add: mined_Suc [of k b "computeHash b"])
    ultimately show ?thesis by blast
  qed
qed

lemma num_succ_funpow: "(num_succ ^^ k) (Fin n) = Fin (n + int k)"
  by (induction k) (simp_all add: num_succ_def)


lemma proofOfWork_diverges:
  "proofOfWork d b = None \<longleftrightarrow> (\<forall>k. \<not> pow_hit d (nonce_after k b))"
proof
  assume none: "proofOfWork d b = None"
  show "\<forall>k. \<not> pow_hit d (nonce_after k b)"
  proof (rule ccontr)
    assume "\<not> (\<forall>k. \<not> pow_hit d (nonce_after k b))"
    then obtain k where k: "pow_hit d (nonce_after k b)" by blast
    define m where "m = (LEAST k. pow_hit d (nonce_after k b))"
    have "pow_hit d (nonce_after m b)" unfolding m_def using k by (rule LeastI)
    moreover have "\<forall>j<m. \<not> pow_hit d (nonce_after j b)"
      unfolding m_def using not_less_Least by blast
    ultimately have "proofOfWork d b = Some (mined m b)" by (rule proofOfWork_found)
    with none show False by simp
  qed
next
  assume all: "\<forall>k. \<not> pow_hit d (nonce_after k b)"
  show "proofOfWork d b = None"
  proof (cases "proofOfWork d b")
    case None then show ?thesis .
  next
    case (Some b')
    from proofOfWork_returns [OF this] all show ?thesis by blast
  qed
qed

section \<open>A concrete chain\<close>

text \<open>
  A chain of difficulty 1 as the program builds it: the genesis block and two added
  blocks. Its digests are computed below, so the examples in the rest of the theory run
  the definitions on real hashes.
\<close>

definition demo_genesis :: block where
  "demo_genesis =
     \<lparr>index = Fin 0, timestamp = ''2024-01-01T00:00:00.000Z'',
      data = JObj [(''message'', JStr ''Genesis Block'')], previousHash = ''0'', nonce = Fin 2,
      hash = ''0181cffa9279dde54b5d8f490aeee622918b8cedfd33e37fc5fc49ab1fda1b8f''\<rparr>"

definition demo_block1 :: block where
  "demo_block1 =
     \<lparr>index = Fin 1, timestamp = ''2024-01-01T00:01:00.001Z'',
      data = JObj [(''note'', JStr ''x'')],
      previousHash = ''0181cffa9279dde54b5d8f490aeee622918b8cedfd33e37fc5fc49ab1fda1b8f'',
      nonce = Fin 0,
      hash = ''04c9d90c224f443c1ba0a9178d9f9d056075c0ce11da190d53dbf2b639f1b0ab''\<rparr>"

definition demo_block2 :: block where
  "demo_block2 =
     \<lparr>index = Fin 2, timestamp = ''2024-01-01T00:02:00.003Z'',
      data = JObj [(''note'', JNull)],
      previousHash = ''04c9d90c224f443c1ba0a9178d9f9d056075c0ce11da190d53dbf2b639f1b0ab'',
      nonce = Fin 0,
      hash = ''005e8721e2b3759eb90b9e34371cbe0c9748e07a5774ac359290a1bd091e8f48''\<rparr>"

definition demo_chain :: blockchain where
  "demo_chain = \<lparr>difficulty = 1, chain = [demo_genesis, demo_block1, demo_block2]\<rparr>"

lemma sha_genesis_0:
  \<open>sha256 ''0|2024-01-01T00:00:00.000Z|{"message":"Genesis Block"}|0|0'' =
     ''9d367d52601faee2b09d5dc25d489a407f9e6faed136880a97e700c331daed4e''\<close>
  apply (simp add: sha_pre)
  apply (simp only: sha_eval)
  apply (simp add: sha_post)
  done

lemma sha_genesis_1:
  \<open>sha256 ''0|2024-01-01T00:00:00.000Z|{"message":"Genesis Block"}|0|1'' =
     ''d1b789576e70fb90a48d36928b42f45332c1a056dd221a67599f4376da29fcc3''\<close>
  apply (simp add: sha_pre)
  apply (simp only: sha_eval)
  apply (simp add: sha_post)
  done

lemma sha_genesis_2:
  \<open>sha256 ''0|2024-01-01T00:00:00.000Z|{"message":"Genesis Block"}|0|2'' =
     ''0181cffa9279dde54b5d8f490aeee622918b8cedfd33e37fc5fc49ab1fda1b8f''\<close>
  apply (simp add: sha_pre)
  apply (simp only: sha_eval)
  apply (simp add: sha_post)
  done

lemma sha_block1:
  \<open>sha256 ''1|2024-01-01T00:01:00.001Z|{"note":"x"}|0181cffa9279dde54b5d8f490aeee622918b8cedfd33e37fc5fc49ab1fda1b8f|0'' =
     ''04c9d90c224f443c1ba0a9178d9f9d056075c0ce11da190d53dbf2b639f1b0ab''\<close>
  apply (simp add: sha_pre)
  apply (simp only: sha_eval)
  apply (simp add: sha_post)
  done

lemma sha_block2:
  \<open>sha256 ''2|2024-01-01T00:02:00.003Z|{"note":null}|04c9d90c224f443c1ba0a9178d9f9d056075c0ce11da190d53dbf2b639f1b0ab|0'' =
     ''005e8721e2b3759eb90b9e34371cbe0c9748e07a5774ac359290a1bd091e8f48''\<close>
  apply (simp add: sha_pre)
  apply (simp only: sha_eval)
  apply (simp add: sha_post)
  done

lemma sha_block1_forged:
  \<open>sha256 ''1|2024-01-01T00:01:00.001Z|{"note":"y"}|0181cffa9279dde54b5d8f490aeee622918b8cedfd33e37fc5fc49ab1fda1b8f|0'' =
     ''c869ee2700d4bdc4aeac97f6e0260cd1bee6d9d75892906410cbca99f3037876''\<close>
  apply (simp add: sha_pre)
  apply (simp only: sha_eval)
  apply (simp add: sha_post)
  done

lemma sha_empty_record:
  \<open>sha256 ''NaN||undefined||0'' =
     ''1a2980ddeab39ba00cd486b32b01b1acd2fdd3b3c4713ecc750bd8998634ca9a''\<close>
  apply (simp add: sha_pre)
  apply (simp only: sha_eval)
  apply (simp add: sha_post)
  done

lemmas num_eval = num_to_string_def digits.simps digit_char_def num_succ_def num_eq_def

lemmas json_eval = data_text_def quote_def escape_char_def

lemma computeHash_demo_genesis:
  "computeHash \<lparr>index = Fin 0, timestamp = ''2024-01-01T00:00:00.000Z'',
     data = JObj [(''message'', JStr ''Genesis Block'')], previousHash = ''0'', nonce = Fin 0, hash = h\<rparr> =
     ''9d367d52601faee2b09d5dc25d489a407f9e6faed136880a97e700c331daed4e''"
  "computeHash \<lparr>index = Fin 0, timestamp = ''2024-01-01T00:00:00.000Z'',
     data = JObj [(''message'', JStr ''Genesis Block'')], previousHash = ''0'', nonce = Fin 1, hash = h\<rparr> =
     ''d1b789576e70fb90a48d36928b42f45332c1a056dd221a67599f4376da29fcc3''"
  "computeHash \<lparr>index = Fin 0, timestamp = ''2024-01-01T00:00:00.000Z'',
     data = JObj [(''message'', JStr ''Genesis Block'')], previousHash = ''0'', nonce = Fin 2, hash = h\<rparr> =
     ''0181cffa9279dde54b5d8f490aeee622918b8cedfd33e37fc5fc49ab1fda1b8f''"
  by (simp_all add: computeHash_def blockString_def num_eval json_eval
        sha_genesis_0 sha_genesis_1 sha_genesis_2)

lemma computeHash_demo_block1:
  "computeHash \<lparr>index = Fin 1, timestamp = ''2024-01-01T00:01:00.001Z'',
     data = JObj [(''note'', JStr ''x'')],
     previousHash = ''0181cffa9279dde54b5d8f490aeee622918b8cedfd33e37fc5fc49ab1fda1b8f'',
     nonce = Fin 0, hash = h\<rparr> =
     ''04c9d90c224f443c1ba0a9178d9f9d056075c0ce11da190d53dbf2b639f1b0ab''"
  by (simp add: computeHash_def blockString_def num_eval json_eval sha_block1)

lemma computeHash_demo_block2:
  "computeHash \<lparr>index = Fin 2, timestamp = ''2024-01-01T00:02:00.003Z'',
     data = JObj [(''note'', JNull)],
     previousHash = ''04c9d90c224f443c1ba0a9178d9f9d056075c0ce11da190d53dbf2b639f1b0ab'',
     nonce = Fin 0, hash = h\<rparr> =
     ''005e8721e2b3759eb90b9e34371cbe0c9748e07a5774ac359290a1bd091e8f48''"
  by (simp add: computeHash_def blockString_def num_eval json_eval sha_block2)

lemma computeHash_demo_forged:
  "computeHash \<lparr>index = Fin 1, timestamp = ''2024-01-01T00:01:00.001Z'',
     data = JObj [(''note'', JStr ''y'')],
     previousHash = ''0181cffa9279dde54b5d8f490aeee622918b8cedfd33e37fc5fc49ab1fda1b8f'',
     nonce = Fin 0, hash = h\<rparr> =
     ''c869ee2700d4bdc4aeac97f6e0260cd1bee6d9d75892906410cbca99f3037876''"
  by (simp add: computeHash_def blockString_def num_eval json_eval sha_block1_forged)

lemma computeHash_empty_record:
  "computeHash \<lparr>index = NaN, timestamp = [], data = JUndefined, previousHash = [],
     nonce = Fin 0, hash = h\<rparr> =
     ''1a2980ddeab39ba00cd486b32b01b1acd2fdd3b3c4713ecc750bd8998634ca9a''"
  by (simp add: computeHash_def blockString_def num_eval json_eval sha_empty_record)

lemmas computeHash_demo = computeHash_demo_genesis computeHash_demo_block1 computeHash_demo_block2
  computeHash_demo_forged computeHash_empty_record

text \<open>The chain is what the constructor and two calls of \<^verbatim>\<open>addBlock\<close> produce.\<close>

lemma demo_genesis_mined:
  "proofOfWork 1 (Block (Fin 0) ''2024-01-01T00:00:00.000Z''
     (JObj [(''message'', JStr ''Genesis Block'')]) ''0'') = Some demo_genesis"
  apply (subst proofOfWork.simps)
  apply (simp add: Block_def computeHash_demo targetPrefix_def num_succ_def)
  apply (subst proofOfWork.simps)
  apply (simp add: Block_def computeHash_demo targetPrefix_def num_succ_def)
  apply (subst proofOfWork.simps)
  apply (simp add: Block_def computeHash_demo targetPrefix_def num_succ_def demo_genesis_def)
  done

lemma demo_chain_built:
  "Blockchain 1 ''2024-01-01T00:00:00.000Z'' = Some \<lparr>difficulty = 1, chain = [demo_genesis]\<rparr>"
  "addBlock \<lparr>difficulty = 1, chain = [demo_genesis]\<rparr> ''2024-01-01T00:01:00.001Z''
     (JObj [(''note'', JStr ''x'')]) =
     Some (Inr (\<lparr>difficulty = 1, chain = [demo_genesis, demo_block1]\<rparr>, demo_block1))"
  "addBlock \<lparr>difficulty = 1, chain = [demo_genesis, demo_block1]\<rparr> ''2024-01-01T00:02:00.003Z''
     (JObj [(''note'', JNull)]) = Some (Inr (demo_chain, demo_block2))"
proof -
  show "Blockchain 1 ''2024-01-01T00:00:00.000Z'' = Some \<lparr>difficulty = 1, chain = [demo_genesis]\<rparr>"
    using demo_genesis_mined by (simp add: Blockchain_def creatGenBlock_def)
  have m1: "proofOfWork 1 (Block (Fin 1) ''2024-01-01T00:01:00.001Z'' (JObj [(''note'', JStr ''x'')])
      ''0181cffa9279dde54b5d8f490aeee622918b8cedfd33e37fc5fc49ab1fda1b8f'') = Some demo_block1"
    by (subst proofOfWork.simps)
       (simp add: Block_def computeHash_demo targetPrefix_def demo_block1_def)
  show "addBlock \<lparr>difficulty = 1, chain = [demo_genesis]\<rparr> ''2024-01-01T00:01:00.001Z''
     (JObj [(''note'', JStr ''x'')]) =
     Some (Inr (\<lparr>difficulty = 1, chain = [demo_genesis, demo_block1]\<rparr>, demo_block1))"
    using m1 by (simp add: addBlock_def getLastBlock_def demo_genesis_def num_succ_def)
  have m2: "proofOfWork 1 (Block (Fin 2) ''2024-01-01T00:02:00.003Z'' (JObj [(''note'', JNull)])
      ''04c9d90c224f443c1ba0a9178d9f9d056075c0ce11da190d53dbf2b639f1b0ab'') = Some demo_block2"
    by (subst proofOfWork.simps)
       (simp add: Block_def computeHash_demo targetPrefix_def demo_block2_def)
  show "addBlock \<lparr>difficulty = 1, chain = [demo_genesis, demo_block1]\<rparr> ''2024-01-01T00:02:00.003Z''
     (JObj [(''note'', JNull)]) = Some (Inr (demo_chain, demo_block2))"
    using m2 by (simp add: addBlock_def getLastBlock_def demo_block1_def num_succ_def demo_chain_def)
qed

lemmas validate_eval = validateChain_def validate_loop.simps check_block_def Let_def
  targetPrefix_def num_eval

lemma demo_chain_report:
  "validateChain demo_chain =
     \<lparr>isValid = True, invalidBlockIndices = [],
      details =
        [\<lparr>d_index = Fin 0, isHashValid = True, isPowValid = True, isPrevValid = True,
          isIndexValid = True, blockValid = True, cascaded = False\<rparr>,
         \<lparr>d_index = Fin 1, isHashValid = True, isPowValid = True, isPrevValid = True,
          isIndexValid = True, blockValid = True, cascaded = False\<rparr>,
         \<lparr>d_index = Fin 2, isHashValid = True, isPowValid = True, isPrevValid = True,
          isIndexValid = True, blockValid = True, cascaded = False\<rparr>]\<rparr>"
  by (simp add: validate_eval demo_chain_def demo_genesis_def demo_block1_def demo_block2_def
        computeHash_demo)

text \<open>A block as the JSON export writes it and \<^verbatim>\<open>JSON.parse\<close> reads it back.\<close>

definition record_of :: "block \<Rightarrow> jsval" where
  "record_of b =
     JObj [(''index'', JNum (index b)), (''timestamp'', JStr (timestamp b)), (''data'', data b),
           (''previousHash'', JStr (previousHash b)), (''nonce'', JNum (nonce b)),
           (''hash'', JStr (hash b))]"

text \<open>The same chain after block 1's data was replaced without mining again.\<close>

definition demo_forged :: blockchain where
  "demo_forged =
     demo_chain\<lparr>chain := (chain demo_chain)[1 := demo_block1\<lparr>data := JObj [(''note'', JStr ''y'')]\<rparr>]\<rparr>"

lemma demo_forged_report:
  "validateChain demo_forged =
     \<lparr>isValid = False, invalidBlockIndices = [Fin 1, Fin 2],
      details =
        [\<lparr>d_index = Fin 0, isHashValid = True, isPowValid = True, isPrevValid = True,
          isIndexValid = True, blockValid = True, cascaded = False\<rparr>,
         \<lparr>d_index = Fin 1, isHashValid = False, isPowValid = True, isPrevValid = True,
          isIndexValid = True, blockValid = False, cascaded = False\<rparr>,
         \<lparr>d_index = Fin 2, isHashValid = True, isPowValid = True, isPrevValid = False,
          isIndexValid = True, blockValid = False, cascaded = True\<rparr>]\<rparr>"
  by (simp add: validate_eval demo_forged_def demo_chain_def demo_genesis_def demo_block1_def
        demo_block2_def computeHash_demo)

lemma and_then_simps: "and_then (Inr x) f = f x" "and_then (Inl e) f = Inl e"
  by (simp_all add: and_then_def)

lemma and_then_weak_cong: "m = m' \<Longrightarrow> and_then m f = and_then m' f"
  by simp

lemmas ext_eval = validate_external_chain_def ext_loop.simps check_record_def and_then_simps
  or_empty_def truthy_def get_prop_def coalesce_def nullish_def prevHashRaw_def hashRaw_def
  dataRaw_def indexRaw_def nonceRaw_def timestampRaw_def to_number_def prev_block_def Block_def
  Let_def targetPrefix_def num_eval record_of_def own_keys_def

lemma demo_records_report:
  "validate_external_chain (chain demo_chain) (map record_of (chain demo_chain)) 1 =
     Inr \<lparr>isValid = True, invalidBlockIndices = [],
      details =
        [\<lparr>d_index = Fin 0, isHashValid = True, isPowValid = True, isPrevValid = True,
          isIndexValid = True, blockValid = True, cascaded = False, matchesServerGenesis = True\<rparr>,
         \<lparr>d_index = Fin 1, isHashValid = True, isPowValid = True, isPrevValid = True,
          isIndexValid = True, blockValid = True, cascaded = False, matchesServerGenesis = True\<rparr>,
         \<lparr>d_index = Fin 2, isHashValid = True, isPowValid = True, isPrevValid = True,
          isIndexValid = True, blockValid = True, cascaded = False, matchesServerGenesis = True\<rparr>]\<rparr>"
  by (simp add: ext_eval demo_chain_def demo_genesis_def demo_block1_def demo_block2_def
        computeHash_demo cong: and_then_weak_cong let_weak_cong sum.case_cong_weak)

lemma demo_forged_records_report:
  "validate_external_chain (chain demo_chain) (map record_of (chain demo_forged)) 1 =
     Inr \<lparr>isValid = False, invalidBlockIndices = [Fin 1, Fin 2],
      details =
        [\<lparr>d_index = Fin 0, isHashValid = True, isPowValid = True, isPrevValid = True,
          isIndexValid = True, blockValid = True, cascaded = False, matchesServerGenesis = True\<rparr>,
         \<lparr>d_index = Fin 1, isHashValid = False, isPowValid = True, isPrevValid = True,
          isIndexValid = True, blockValid = False, cascaded = False, matchesServerGenesis = True\<rparr>,
         \<lparr>d_index = Fin 2, isHashValid = True, isPowValid = True, isPrevValid = False,
          isIndexValid = True, blockValid = False, cascaded = True, matchesServerGenesis = True\<rparr>]\<rparr>"
  by (simp add: ext_eval demo_forged_def demo_chain_def demo_genesis_def demo_block1_def
        demo_block2_def computeHash_demo cong: and_then_weak_cong let_weak_cong sum.case_cong_weak)

section \<open>Uploaded records\<close>

subsection \<open>Records whose fields can be coerced\<close>








lemma or_empty_idem [simp]: "or_empty (or_empty v) = or_empty v"
  by (simp add: or_empty_def truthy_def)





lemma sha256_nonempty [simp]: "sha256 s \<noteq> []" "[] \<noteq> sha256 s"
  using length_sha256 [of s] by auto

lemma startsWith_Nil [simp]: "startsWith [] p = (p = [])"
  by (cases p) simp_all


lemma check_record_genesis:
  "check_record server d ch i c = Inr e \<Longrightarrow>
   \<exists>h. to_string (coalesce (hashRaw (or_empty (ch ! i))) (JStr [])) = Inr h \<and>
       matchesServerGenesis e = (i \<noteq> 0 \<or> server = [] \<or> h = hash (server ! 0)) \<and>
       blockValid e = (\<not> cascaded e \<and> isHashValid e \<and> isPowValid e \<and> isPrevValid e \<and>
                       isIndexValid e \<and> matchesServerGenesis e)"
  by (auto simp add: check_record_def and_then_def Let_def split: sum.splits if_splits)

lemma check_record_prev_index:
  "check_record server d ch i c = Inr e \<Longrightarrow> 0 < i \<Longrightarrow>
   get_prop (ch ! (i - 1)) ''index'' = JUndefined \<Longrightarrow> \<not> isIndexValid e \<and> \<not> blockValid e"
  by (auto simp add: check_record_def and_then_def Let_def to_number_def num_succ_def num_eq_def
        split: sum.splits if_splits)

subsection \<open>A foreign chain and a chain written with alias keys\<close>

text \<open>
  A block that uses the second spelling of every key, a genesis block mined by another
  process, and the reports of the validator on these uploads.
\<close>

definition alias_record :: "block \<Rightarrow> jsval" where
  "alias_record b =
     JObj [(''Index'', JNum (index b)), (''Timestamp'', JStr (timestamp b)), (''Data'', data b),
           (''prevHash'', JStr (previousHash b)), (''Nonce'', JNum (nonce b)),
           (''Hash'', JStr (hash b))]"

definition foreign_genesis :: block where
  "foreign_genesis =
     \<lparr>index = Fin 0, timestamp = ''2024-02-02T00:00:00.000Z'',
      data = JObj [(''message'', JStr ''Genesis Block'')], previousHash = ''0'', nonce = Fin 7,
      hash = ''0fe3a21954b7d7d6e3a83c0e62c1a28d4ff915795e0b2c66924591ed74f88c62''\<rparr>"

lemma sha_foreign_genesis:
  \<open>sha256 ''0|2024-02-02T00:00:00.000Z|{"message":"Genesis Block"}|0|7'' =
     ''0fe3a21954b7d7d6e3a83c0e62c1a28d4ff915795e0b2c66924591ed74f88c62''\<close>
  apply (simp add: sha_pre)
  apply (simp only: sha_eval)
  apply (simp add: sha_post)
  done

lemma foreign_genesis_valid:
  "validateChain \<lparr>difficulty = 1, chain = [foreign_genesis]\<rparr> =
     \<lparr>isValid = True, invalidBlockIndices = [],
      details = [\<lparr>d_index = Fin 0, isHashValid = True, isPowValid = True, isPrevValid = True,
          isIndexValid = True, blockValid = True, cascaded = False\<rparr>]\<rparr>"
  by (simp add: validate_eval foreign_genesis_def computeHash_def blockString_def json_eval
        sha_foreign_genesis)

lemmas ext_cong = and_then_weak_cong let_weak_cong sum.case_cong_weak

lemma foreign_records_report:
  "validate_external_chain [foreign_genesis] (map record_of (chain demo_chain)) 1 =
     Inr \<lparr>isValid = False, invalidBlockIndices = [Fin 0, Fin 1, Fin 2],
      details =
        [\<lparr>d_index = Fin 0, isHashValid = True, isPowValid = True, isPrevValid = True,
          isIndexValid = True, blockValid = False, cascaded = False, matchesServerGenesis = False\<rparr>,
         \<lparr>d_index = Fin 1, isHashValid = True, isPowValid = True, isPrevValid = True,
          isIndexValid = True, blockValid = False, cascaded = True, matchesServerGenesis = True\<rparr>,
         \<lparr>d_index = Fin 2, isHashValid = True, isPowValid = True, isPrevValid = True,
          isIndexValid = True, blockValid = False, cascaded = True, matchesServerGenesis = True\<rparr>]\<rparr>"
  by (simp add: ext_eval demo_chain_def demo_genesis_def demo_block1_def demo_block2_def
        foreign_genesis_def computeHash_demo cong: ext_cong)

lemma alias_records_report:
  "validate_external_chain (chain demo_chain) (map alias_record (chain demo_chain)) 1 =
     Inr \<lparr>isValid = False, invalidBlockIndices = [Fin 1, Fin 2],
      details =
        [\<lparr>d_index = Fin 0, isHashValid = True, isPowValid = True, isPrevValid = True,
          isIndexValid = True, blockValid = True, cascaded = False, matchesServerGenesis = True\<rparr>,
         \<lparr>d_index = Fin 1, isHashValid = True, isPowValid = True, isPrevValid = False,
          isIndexValid = False, blockValid = False, cascaded = False, matchesServerGenesis = True\<rparr>,
         \<lparr>d_index = Fin 2, isHashValid = True, isPowValid = True, isPrevValid = False,
          isIndexValid = False, blockValid = False, cascaded = True, matchesServerGenesis = True\<rparr>]\<rparr>"
  by (simp add: ext_eval alias_record_def demo_chain_def demo_genesis_def demo_block1_def
        demo_block2_def computeHash_demo cong: ext_cong)



definition canonical_keys :: "string list" where
  "canonical_keys = [''index'', ''timestamp'', ''data'', ''previousHash'', ''nonce'', ''hash'']"

subsection \<open>Which files are rejected\<close>

text \<open>
  A parsed document holds a chain when it is an array or an object whose property
  \<^verbatim>\<open>chain\<close> is an array; a text has a line that starts with a pattern when the pattern
  stands, in any case of the letters, at the start of the text or after a line end.
\<close>

definition chain_document :: "jsval option \<Rightarrow> jsval list \<Rightarrow> bool" where
  "chain_document p xs =
     (p = Some (JArr xs) \<or> (\<exists>kvs. p = Some (JObj kvs) \<and> map_of kvs ''chain'' = Some (JArr xs)))"

definition line_starts :: "string \<Rightarrow> string \<Rightarrow> bool" where
  "line_starts pat s =
     (\<exists>pre m rest. s = pre @ m @ rest \<and> (pre = [] \<or> is_line_end (last pre)) \<and>
        map upper_char m = map upper_char pat)"

lemma chain_of_iff: "Option.bind p chain_of = Some xs \<longleftrightarrow> chain_document p xs"
  by (cases p)
     (auto simp add: chain_of_def chain_document_def get_prop_def truthy_def
        split: jsval.splits option.splits)

lemma match_ci_iff:
  "match_ci p s = Some r \<longleftrightarrow> (\<exists>m. s = m @ r \<and> map upper_char m = map upper_char p)"
proof (induction p s rule: match_ci.induct)
  case (3 p ps c cs)
  show ?case
  proof (cases "upper_char p = upper_char c")
    case True
    have "(\<exists>m. c # cs = m @ r \<and> map upper_char m = map upper_char (p # ps)) \<longleftrightarrow>
          (\<exists>m. cs = m @ r \<and> map upper_char m = map upper_char ps)"
      (is "?L \<longleftrightarrow> ?R")
    proof
      assume ?L
      then obtain m where m: "c # cs = m @ r" "map upper_char m = map upper_char (p # ps)" by blast
      then obtain m' where "m = c # m'" by (cases m) auto
      with m show ?R by auto
    next
      assume ?R
      then obtain m where "cs = m @ r" "map upper_char m = map upper_char ps" by blast
      with True have "c # cs = (c # m) @ r \<and> map upper_char (c # m) = map upper_char (p # ps)"
        by simp
      then show ?L by blast
    qed
    with True 3 show ?thesis by simp
  next
    case False
    have "\<not> (\<exists>m. c # cs = m @ r \<and> map upper_char m = map upper_char (p # ps))"
    proof
      assume "\<exists>m. c # cs = m @ r \<and> map upper_char m = map upper_char (p # ps)"
      then obtain m where m: "c # cs = m @ r" "map upper_char m = map upper_char (p # ps)" by blast
      then obtain m' where "m = c # m'" by (cases m) auto
      with m False show False by auto
    qed
    with False show ?thesis by simp
  qed
qed auto

lemma find_line_iff:
  "find_line pat bol s \<noteq> None \<longleftrightarrow>
     (\<exists>pre rest. s = pre @ rest \<and> (if pre = [] then bol else is_line_end (last pre)) \<and>
        match_ci pat rest \<noteq> None)"
proof (induction s arbitrary: bol)
  case Nil
  show ?case by auto
next
  case (Cons c cs)
  have "(\<exists>pre rest. c # cs = pre @ rest \<and> (if pre = [] then bol else is_line_end (last pre)) \<and>
            match_ci pat rest \<noteq> None) \<longleftrightarrow>
        (bol \<and> match_ci pat (c # cs) \<noteq> None) \<or>
        (\<exists>pre rest. cs = pre @ rest \<and> (if pre = [] then is_line_end c else is_line_end (last pre)) \<and>
            match_ci pat rest \<noteq> None)"
    (is "?L \<longleftrightarrow> ?A \<or> ?B")
  proof
    assume ?L
    then obtain pre rest where pr: "c # cs = pre @ rest"
      "if pre = [] then bol else is_line_end (last pre)" "match_ci pat rest \<noteq> None" by blast
    show "?A \<or> ?B"
    proof (cases pre)
      case Nil
      with pr show ?thesis by simp
    next
      case (Cons a pre')
      with pr have "cs = pre' @ rest \<and>
          (if pre' = [] then is_line_end c else is_line_end (last pre')) \<and> match_ci pat rest \<noteq> None"
        by (auto split: if_splits)
      then show ?thesis by blast
    qed
  next
    assume "?A \<or> ?B"
    then show ?L
    proof
      assume ?A
      then have "c # cs = [] @ (c # cs) \<and> (if [] = ([]::string) then bol else is_line_end (last [])) \<and>
          match_ci pat (c # cs) \<noteq> None" by simp
      then show ?L by blast
    next
      assume ?B
      then obtain pre rest where pr: "cs = pre @ rest"
        "if pre = [] then is_line_end c else is_line_end (last pre)" "match_ci pat rest \<noteq> None"
        by blast
      then have "c # cs = (c # pre) @ rest \<and>
          (if c # pre = [] then bol else is_line_end (last (c # pre))) \<and> match_ci pat rest \<noteq> None"
        by (auto split: if_splits)
      then show ?L by blast
    qed
  qed
  with Cons [of "is_line_end c"] show ?case by (auto split: option.splits)
qed

lemma find_line_starts: "find_line pat True s \<noteq> None \<longleftrightarrow> line_starts pat s"
proof
  assume "find_line pat True s \<noteq> None"
  then obtain pre rest where pr: "s = pre @ rest" "pre = [] \<or> is_line_end (last pre)"
    "match_ci pat rest \<noteq> None"
    unfolding find_line_iff by (auto split: if_splits)
  from pr(3) obtain r where "match_ci pat rest = Some r" by auto
  then obtain m where "rest = m @ r" "map upper_char m = map upper_char pat"
    unfolding match_ci_iff by blast
  with pr have "s = pre @ m @ r \<and> (pre = [] \<or> is_line_end (last pre)) \<and>
      map upper_char m = map upper_char pat" by simp
  then show "line_starts pat s" unfolding line_starts_def by blast
next
  assume "line_starts pat s"
  then obtain pre m rest where pr: "s = pre @ m @ rest" "pre = [] \<or> is_line_end (last pre)"
    "map upper_char m = map upper_char pat"
    unfolding line_starts_def by blast
  have "match_ci pat (m @ rest) = Some rest" unfolding match_ci_iff using pr(3) by blast
  with pr have "s = pre @ (m @ rest) \<and> (if pre = [] then True else is_line_end (last pre)) \<and>
      match_ci pat (m @ rest) \<noteq> None" by auto
  then show "find_line pat True s \<noteq> None" unfolding find_line_iff by blast
qed

lemma getLine_None: "getLine s label = None \<longleftrightarrow> \<not> line_starts (label @ '':'') s"
  using find_line_starts [of "label @ '':''" s] by (auto simp add: getLine_def split: option.splits)

lemma line_starts_Nil [simp]: "line_starts (p # ps) [] = False"
  by (simp add: line_starts_def)

lemma text_block_None:
  "text_block json_parse sec = None \<longleftrightarrow>
     \<not> (line_starts ''Index:'' (trim sec) \<and> line_starts ''Nonce:'' (trim sec))"
  using getLine_None [of "trim sec" "''Index''"] getLine_None [of "trim sec" "''Nonce''"]
  by (auto simp add: text_block_def Let_def split: option.splits)

lemma map_filter_Nil: "List.map_filter f xs = [] \<longleftrightarrow> (\<forall>x\<in>set xs. f x = None)"
  by (induction xs) (auto simp add: List.map_filter_simps split: option.splits)

lemma bind_chain_of_None:
  "Option.bind p chain_of = None \<longleftrightarrow> (\<forall>xs. \<not> chain_document p xs)"
  using chain_of_iff [of p] by (cases "Option.bind p chain_of") auto

text \<open>
  A text upload of four sections: the first is a whole block, the second has no nonce and
  is dropped, the third has only an index and a nonce (in capitals, before a carriage
  return), the last is blank.
\<close>

text \<open>Stand-ins for a library parser in the examples: one that reads a single text and
  throws on every other one, and one that always throws.\<close>

definition reads :: "string \<Rightarrow> jsval \<Rightarrow> string \<Rightarrow> jsval option" where
  "reads t v s = (if s = t then Some v else None)"

definition throws :: "string \<Rightarrow> jsval option" where
  "throws s = None"

definition text_upload :: string where
  "text_upload =
     join_with [CHR 0x0A]
       [''---'', ''Index: 0'', ''Timestamp: t0'', ''Previous Hash: 0'', ''Hash: 0a'', ''Data: {}'',
        ''Nonce: 2'', ''---'', ''index: 1'', ''Hash: 0b'', ''---'', ''Index: 2'',
        ''NONCE: 5'' @ [CHR 0x0D], ''---'' @ [CHR 0x0D], '''']"

lemmas text_eval = text_block_def getLine_def separator_def line_break_def trim_def
  is_space_def is_line_end_def upper_char_def opt_text_def str_to_num_def unsigned_num_def
  is_digit_def dec_value_def List.map_filter_simps Let_def

lemma text_upload_sections:
  "split_sections text_upload =
     [join_with [CHR 0x0A]
        [''---'', ''Index: 0'', ''Timestamp: t0'', ''Previous Hash: 0'', ''Hash: 0a'', ''Data: {}'',
         ''Nonce: 2''],
      join_with [CHR 0x0A] [''index: 1'', ''Hash: 0b''],
      join_with [CHR 0x0A] [''Index: 2'', ''NONCE: 5''],
      []]"
  by (simp add: text_upload_def separator_def line_break_def)

lemma text_upload_parsed:
  "parseUpChain (reads ''{}'' (JObj [])) throws text_upload =
     Inr [JObj [(''index'', JNum (Fin 0)), (''timestamp'', JStr ''t0''),
                (''previousHash'', JStr ''0''), (''hash'', JStr ''0a''), (''data'', JObj []),
                (''nonce'', JNum (Fin 2))],
          JObj [(''index'', JNum (Fin 2)), (''timestamp'', JUndefined),
                (''previousHash'', JUndefined), (''hash'', JUndefined), (''data'', JUndefined),
                (''nonce'', JNum (Fin 5))]]"
  unfolding parseUpChain_def text_upload_sections
  by (simp add: text_upload_def text_eval reads_def throws_def)

section \<open>Properties\<close>

text \<open>
  Claim C1. Whenever \<^verbatim>\<open>proofOfWork\<close> returns, for any difficulty \<open>d\<close> and any block \<open>b\<close>, the
  block's hash starts with \<open>d\<close> characters \<^verbatim>\<open>0\<close> and equals the hash recomputed from its stored
  fields; the returned block is \<open>b\<close> with the nonce incremented \<open>k\<close> times by one (and the hash
  recomputed), where each of the \<open>k\<close> earlier candidates failed the target; the other
  fields are those of \<open>b\<close>.
\<close>

theorem C1_proofOfWork:
  assumes "proofOfWork d b = Some b'"
  shows "take d (hash b') = replicate d CHR ''0'' \<and> hash b' = computeHash b' \<and>
         (\<exists>k. b' = mined k b \<and> nonce b' = (num_succ ^^ k) (nonce b) \<and>
              (\<forall>n. nonce b = Fin n \<longrightarrow> nonce b' = Fin (n + int k)) \<and>
              (\<forall>j<k. \<not> startsWith (computeHash (nonce_after j b)) (targetPrefix d)))"
proof -
  from proofOfWork_returns [OF assms] obtain k where
    k: "pow_hit d (nonce_after k b)" "\<forall>j<k. \<not> pow_hit d (nonce_after j b)" "b' = mined k b"
    by blast
  have h: "hash b' = computeHash b'" using k(3) by (simp add: mined_def)
  have "startsWith (hash b') (targetPrefix d)"
    using k(1) k(3) by (simp add: pow_hit_def mined_def)
  then have "take d (hash b') = replicate d CHR ''0''"
    by (simp add: startsWith_iff targetPrefix_def)
  moreover have "nonce b' = (num_succ ^^ k) (nonce b)"
    using k(3) by (simp add: mined_def nonce_after_def)
  ultimately show ?thesis
    using h k by (auto simp add: pow_hit_def num_succ_funpow intro!: exI [of _ k])
qed



text \<open>Witness: mining the genesis block of the example at difficulty 1 fails for the nonces
  0 and 1 and returns at nonce 2.\<close>

theorem C1_proofOfWork_witness:
  "proofOfWork 1 (Block (Fin 0) ''2024-01-01T00:00:00.000Z''
     (JObj [(''message'', JStr ''Genesis Block'')]) ''0'') = Some demo_genesis \<and>
   take 1 (hash demo_genesis) = replicate 1 CHR ''0'' \<and>
   hash demo_genesis = computeHash demo_genesis"
proof -
  have "take 1 (hash demo_genesis) = replicate 1 CHR ''0'' \<and>
        hash demo_genesis = computeHash demo_genesis"
    using C1_proofOfWork [OF demo_genesis_mined] by blast
  with demo_genesis_mined show ?thesis by blast
qed

text \<open>
  Claim C2. In a validation pass of either validator, entry \<open>j\<close> of the report has
  \<open>cascaded\<close> true exactly when some earlier entry has \<open>blockValid\<close> false; a cascaded entry
  has \<open>blockValid\<close> false, so after one invalid block every later entry is cascaded and
  invalid whatever its own checks say; and \<open>invalidBlockIndices\<close> lists the stored indices
  of the invalid entries in the order met (for an uploaded chain the stored index is the
  number the record's index field coerces to). The uploaded-chain validator is covered
  whenever it returns a report.
\<close>

theorem C2_cascade:
  "(let r = validateChain bc; n = length (chain bc) in
      length (details r) = n \<and>
      (\<forall>j<n. d_index (details r ! j) = index (chain bc ! j) \<and>
             cascaded (details r ! j) = (\<exists>k<j. \<not> blockValid (details r ! k)) \<and>
             (cascaded (details r ! j) \<longrightarrow> \<not> blockValid (details r ! j))) \<and>
      (\<forall>k j. k < j \<and> j < n \<and> \<not> blockValid (details r ! k) \<longrightarrow>
             cascaded (details r ! j) \<and> \<not> blockValid (details r ! j)) \<and>
      invalidBlockIndices r = map d_index (filter (\<lambda>e. \<not> blockValid e) (details r))) \<and>
   (\<forall>r. validate_external_chain server ch d = Inr r \<longrightarrow>
      length (details r) = length ch \<and>
      (\<forall>j<length ch. to_number (indexRaw (or_empty (ch ! j))) = Inr (d_index (details r ! j)) \<and>
             cascaded (details r ! j) = (\<exists>k<j. \<not> blockValid (details r ! k)) \<and>
             (cascaded (details r ! j) \<longrightarrow> \<not> blockValid (details r ! j))) \<and>
      (\<forall>k j. k < j \<and> j < length ch \<and> \<not> blockValid (details r ! k) \<longrightarrow>
             cascaded (details r ! j) \<and> \<not> blockValid (details r ! j)) \<and>
      invalidBlockIndices r = map d_index (filter (\<lambda>e. \<not> blockValid e) (details r)))"
proof -
  let ?r = "validateChain bc"
  have part1: "length (details ?r) = length (chain bc) \<and>
      (\<forall>j<length (chain bc). d_index (details ?r ! j) = index (chain bc ! j) \<and>
             cascaded (details ?r ! j) = (\<exists>k<j. \<not> blockValid (details ?r ! k)) \<and>
             (cascaded (details ?r ! j) \<longrightarrow> \<not> blockValid (details ?r ! j))) \<and>
      (\<forall>k j. k < j \<and> j < length (chain bc) \<and> \<not> blockValid (details ?r ! k) \<longrightarrow>
             cascaded (details ?r ! j) \<and> \<not> blockValid (details ?r ! j)) \<and>
      invalidBlockIndices ?r = map d_index (filter (\<lambda>e. \<not> blockValid e) (details ?r))"
  proof (intro conjI)
    show "length (details ?r) = length (chain bc)" by simp
    show "\<forall>j<length (chain bc). d_index (details ?r ! j) = index (chain bc ! j) \<and>
             cascaded (details ?r ! j) = (\<exists>k<j. \<not> blockValid (details ?r ! k)) \<and>
             (cascaded (details ?r ! j) \<longrightarrow> \<not> blockValid (details ?r ! j))"
      using validateChain_flags by blast
    show "\<forall>k j. k < j \<and> j < length (chain bc) \<and> \<not> blockValid (details ?r ! k) \<longrightarrow>
             cascaded (details ?r ! j) \<and> \<not> blockValid (details ?r ! j)"
      by (rule cascade_spreads) (use validateChain_flags in blast)
    show "invalidBlockIndices ?r = map d_index (filter (\<lambda>e. \<not> blockValid e) (details ?r))"
      by (rule validateChain_invalid)
  qed
  have part2: "length (details r) = length ch \<and>
      (\<forall>j<length ch. to_number (indexRaw (or_empty (ch ! j))) = Inr (d_index (details r ! j)) \<and>
             cascaded (details r ! j) = (\<exists>k<j. \<not> blockValid (details r ! k)) \<and>
             (cascaded (details r ! j) \<longrightarrow> \<not> blockValid (details r ! j))) \<and>
      (\<forall>k j. k < j \<and> j < length ch \<and> \<not> blockValid (details r ! k) \<longrightarrow>
             cascaded (details r ! j) \<and> \<not> blockValid (details r ! j)) \<and>
      invalidBlockIndices r = map d_index (filter (\<lambda>e. \<not> blockValid e) (details r))"
    if run: "validate_external_chain server ch d = Inr r" for r
  proof (intro conjI)
    show "length (details r) = length ch" by (rule external_length [OF run])
    show "\<forall>j<length ch. to_number (indexRaw (or_empty (ch ! j))) = Inr (d_index (details r ! j)) \<and>
             cascaded (details r ! j) = (\<exists>k<j. \<not> blockValid (details r ! k)) \<and>
             (cascaded (details r ! j) \<longrightarrow> \<not> blockValid (details r ! j))"
      using external_flags [OF run] by blast
    show "\<forall>k j. k < j \<and> j < length ch \<and> \<not> blockValid (details r ! k) \<longrightarrow>
             cascaded (details r ! j) \<and> \<not> blockValid (details r ! j)"
      by (rule cascade_spreads) (use external_flags [OF run] in blast)
    show "invalidBlockIndices r = map d_index (filter (\<lambda>e. \<not> blockValid e) (details r))"
      by (rule external_invalid [OF run])
  qed
  show ?thesis unfolding Let_def using part1 part2 by blast
qed

text \<open>Witness: the example chain with block 1 forged, checked by both validators: entry 1
  is invalid, entry 2 is cascaded and invalid, and the invalid indices are 1 and 2.\<close>

theorem C2_cascade_witness:
  "cascaded (details (validateChain demo_forged) ! 2) =
     (\<exists>k<2. \<not> blockValid (details (validateChain demo_forged) ! k)) \<and>
   cascaded (details (validateChain demo_forged) ! 2) \<and>
   \<not> blockValid (details (validateChain demo_forged) ! 2) \<and>
   invalidBlockIndices (validateChain demo_forged) = [Fin 1, Fin 2] \<and>
   (\<exists>r. validate_external_chain (chain demo_chain) (map record_of (chain demo_forged)) 1 = Inr r \<and>
        cascaded (details r ! 2) = (\<exists>k<2. \<not> blockValid (details r ! k)) \<and>
        cascaded (details r ! 2) \<and> \<not> blockValid (details r ! 2) \<and>
        invalidBlockIndices r = [Fin 1, Fin 2])"
proof -
  have len: "(2::nat) < length (chain demo_forged)"
    by (simp add: demo_forged_def demo_chain_def)
  have int: "cascaded (details (validateChain demo_forged) ! 2) =
     (\<exists>k<2. \<not> blockValid (details (validateChain demo_forged) ! k))"
    using C2_cascade [of demo_forged] len unfolding Let_def by blast
  have lenr: "(2::nat) < length (map record_of (chain demo_forged))"
    by (simp add: demo_forged_def demo_chain_def)
  have ext: "cascaded (details r ! 2) = (\<exists>k<2. \<not> blockValid (details r ! k))"
    if "validate_external_chain (chain demo_chain) (map record_of (chain demo_forged)) 1 = Inr r" for r
    using C2_cascade [of demo_forged "chain demo_chain" "map record_of (chain demo_forged)" 1] that lenr
    unfolding Let_def by blast
  obtain r where run:
    "validate_external_chain (chain demo_chain) (map record_of (chain demo_forged)) 1 = Inr r"
    using demo_forged_records_report by blast
  have vals: "cascaded (details r ! 2) \<and> \<not> blockValid (details r ! 2) \<and>
      invalidBlockIndices r = [Fin 1, Fin 2]"
    using run unfolding demo_forged_records_report by auto
  have B: "cascaded (details (validateChain demo_forged) ! 2) \<and>
      \<not> blockValid (details (validateChain demo_forged) ! 2) \<and>
      invalidBlockIndices (validateChain demo_forged) = [Fin 1, Fin 2]"
    by (simp add: demo_forged_report)
  have C: "\<exists>r. validate_external_chain (chain demo_chain) (map record_of (chain demo_forged)) 1 = Inr r \<and>
        cascaded (details r ! 2) = (\<exists>k<2. \<not> blockValid (details r ! k)) \<and>
        cascaded (details r ! 2) \<and> \<not> blockValid (details r ! 2) \<and>
        invalidBlockIndices r = [Fin 1, Fin 2]"
    using run ext [OF run] vals by blast
  from int B C show ?thesis by blast
qed






text \<open>
  Claim C5. When \<^verbatim>\<open>addBlock\<close> returns normally, the chain is the old chain with the
  returned block appended (one element longer, nothing removed or replaced); the new
  block's index is the old last block's index plus 1, its \<open>previousHash\<close> is the old last
  block's hash, its data and time stamp are the ones given, and it is mined.
\<close>

theorem C5_addBlock:
  assumes "addBlock bc now d = Some (Inr (bc', newBlock))"
  shows "chain bc \<noteq> [] \<and>
         chain bc' = chain bc @ [newBlock] \<and>
         length (chain bc') = length (chain bc) + 1 \<and>
         last (chain bc') = newBlock \<and>
         take (length (chain bc)) (chain bc') = chain bc \<and>
         difficulty bc' = difficulty bc \<and>
         index newBlock = num_succ (index (last (chain bc))) \<and>
         (\<forall>n. index (last (chain bc)) = Fin n \<longrightarrow> index newBlock = Fin (n + 1)) \<and>
         previousHash newBlock = hash (last (chain bc)) \<and>
         data newBlock = d \<and> timestamp newBlock = now \<and>
         hash newBlock = computeHash newBlock \<and>
         take (difficulty bc) (hash newBlock) = replicate (difficulty bc) CHR ''0''"
proof -
  from assms have ne: "chain bc \<noteq> []"
    by (auto simp add: addBlock_def getLastBlock_def split: if_splits)
  let ?b = "Block (num_succ (index (last (chain bc)))) now d (hash (last (chain bc)))"
  from assms ne have run: "proofOfWork (difficulty bc) ?b = Some newBlock"
    and bc': "bc' = bc\<lparr>chain := chain bc @ [newBlock]\<rparr>"
    by (auto simp add: addBlock_def getLastBlock_def split: option.splits)
  from proofOfWork_returns [OF run] obtain k where k: "newBlock = mined k ?b" by blast
  have fields: "index newBlock = num_succ (index (last (chain bc)))"
    "previousHash newBlock = hash (last (chain bc))" "data newBlock = d" "timestamp newBlock = now"
    "hash newBlock = computeHash newBlock"
    using k by (simp_all add: mined_def nonce_after_def Block_def Let_def computeHash_def blockString_def)
  have "pow_hit (difficulty bc) newBlock"
    using proofOfWork_returns [OF run] by (auto simp add: mined_def)
  then have pow: "take (difficulty bc) (hash newBlock) = replicate (difficulty bc) CHR ''0''"
    using fields(5) by (simp add: pow_hit_def startsWith_iff targetPrefix_def)
  show ?thesis using ne bc' fields pow by (auto simp add: num_succ_def)
qed

text \<open>Witness: adding the first block to the example chain.\<close>

theorem C5_addBlock_witness:
  "addBlock \<lparr>difficulty = 1, chain = [demo_genesis]\<rparr> ''2024-01-01T00:01:00.001Z''
     (JObj [(''note'', JStr ''x'')]) =
     Some (Inr (\<lparr>difficulty = 1, chain = [demo_genesis, demo_block1]\<rparr>, demo_block1)) \<and>
   length [demo_genesis, demo_block1] = length [demo_genesis] + 1 \<and>
   index demo_block1 = Fin 1 \<and>
   previousHash demo_block1 = hash demo_genesis \<and>
   data demo_block1 = JObj [(''note'', JStr ''x'')] \<and>
   hash demo_block1 = computeHash demo_block1"
proof -
  have "hash demo_block1 = computeHash demo_block1 \<and> previousHash demo_block1 = hash (last [demo_genesis])"
    using C5_addBlock [OF demo_chain_built(2)] by simp
  then show ?thesis
    using demo_chain_built(2) by (simp add: demo_block1_def demo_genesis_def)
qed

text \<open>
  Claim C6 (as amended). Reading an uploaded file fails, with the error \<^verbatim>\<open>Unsupported or
  malformed blockchain file\<close>, if and only if the JSON document (if the text is one) holds
  no chain, the YAML document (if the text is one) holds no chain, and no section of the
  text between \<^verbatim>\<open>---\<close> lines has both a line starting with \<^verbatim>\<open>Index:\<close> and a line starting
  with \<^verbatim>\<open>Nonce:\<close>. A JSON document that holds a chain is returned as it is, whatever its
  elements and also when it has none; so is a YAML document when the JSON one holds no
  chain.
\<close>

theorem C6_parse_error:
  "(parseUpChain json_parse yaml_load raw = Inl e \<longleftrightarrow>
      e = Error ''Unsupported or malformed blockchain file'' \<and>
      (\<forall>xs. \<not> chain_document (json_parse raw) xs) \<and>
      (\<forall>xs. \<not> chain_document (yaml_load raw) xs) \<and>
      (\<forall>sec\<in>set (split_sections raw).
          \<not> (line_starts ''Index:'' (trim sec) \<and> line_starts ''Nonce:'' (trim sec)))) \<and>
   (chain_document (json_parse raw) xs \<longrightarrow> parseUpChain json_parse yaml_load raw = Inr xs) \<and>
   ((\<forall>ys. \<not> chain_document (json_parse raw) ys) \<and> chain_document (yaml_load raw) xs \<longrightarrow>
      parseUpChain json_parse yaml_load raw = Inr xs)"
proof (intro conjI impI)
  show "parseUpChain json_parse yaml_load raw = Inl e \<longleftrightarrow>
      e = Error ''Unsupported or malformed blockchain file'' \<and>
      (\<forall>xs. \<not> chain_document (json_parse raw) xs) \<and>
      (\<forall>xs. \<not> chain_document (yaml_load raw) xs) \<and>
      (\<forall>sec\<in>set (split_sections raw).
          \<not> (line_starts ''Index:'' (trim sec) \<and> line_starts ''Nonce:'' (trim sec)))"
    unfolding bind_chain_of_None [symmetric] text_block_None [of json_parse, symmetric]
      map_filter_Nil [symmetric]
    by (auto simp add: parseUpChain_def Let_def split: option.splits)
next
  assume "chain_document (json_parse raw) xs"
  then have "Option.bind (json_parse raw) chain_of = Some xs" by (simp add: chain_of_iff)
  then show "parseUpChain json_parse yaml_load raw = Inr xs" by (simp add: parseUpChain_def)
next
  assume a: "(\<forall>ys. \<not> chain_document (json_parse raw) ys) \<and> chain_document (yaml_load raw) xs"
  then have "Option.bind (json_parse raw) chain_of = None" by (simp add: bind_chain_of_None)
  moreover from a have "Option.bind (yaml_load raw) chain_of = Some xs" by (simp add: chain_of_iff)
  ultimately show "parseUpChain json_parse yaml_load raw = Inr xs" by (simp add: parseUpChain_def)
qed

text \<open>Witness: an empty file, which is no JSON document and an empty YAML document, is
  rejected (scenario E); the JSON array \<^verbatim>\<open>[null,3]\<close> is passed on with its two malformed
  elements; the text upload above is not rejected.\<close>

theorem C6_parse_error_witness:
  "parseUpChain throws (reads [] JUndefined) [] =
     Inl (Error ''Unsupported or malformed blockchain file'') \<and>
   parseUpChain (reads ''[null,3]'' (JArr [JNull, JNum (Fin 3)])) throws ''[null,3]'' =
     Inr [JNull, JNum (Fin 3)] \<and>
   parseUpChain (reads ''{}'' (JObj [])) throws text_upload \<noteq>
     Inl (Error ''Unsupported or malformed blockchain file'')"
  using C6_parse_error [of throws "reads [] JUndefined" "[]"
      "Error ''Unsupported or malformed blockchain file''"]
    C6_parse_error [of "reads ''[null,3]'' (JArr [JNull, JNum (Fin 3)])" throws "''[null,3]''" _
      "[JNull, JNum (Fin 3)]"]
  by (simp add: chain_document_def trim_def reads_def throws_def text_upload_parsed)

text \<open>Counterexample to the claim as written: the file \<^verbatim>\<open>[]\<close> is a JSON array and a YAML
  sequence with no block, its text has no block either, and it is read without an error,
  as the empty chain.\<close>

theorem C6_counterexample:
  "parseUpChain (reads ''[]'' (JArr [])) (reads ''[]'' (JArr [])) ''[]'' = Inr [] \<and>
   List.map_filter (text_block (reads ''[]'' (JArr []))) (split_sections ''[]'') = []"
  by (simp add: parseUpChain_def chain_of_def text_eval reads_def)




text \<open>
  Claim C8 (as amended). In the validation of an uploaded chain, every entry has a coerced
  hash string \<open>h\<close>; \<open>matchesServerGenesis\<close> is true at every position but 0, true at
  position 0 when the live chain is empty, and otherwise true iff \<open>h\<close> is the stored hash of
  the live genesis block. It is one of the conjuncts of \<open>blockValid\<close> at every position
  (where it can only be false at position 0). When it fails at position 0, block 0 is
  invalid, the report is invalid, and every later entry is cascaded and invalid.
\<close>

theorem C8_matchesServerGenesis:
  assumes run: "validate_external_chain server ch d = Inr r"
  shows "(\<forall>i<length ch.
            \<exists>h. to_string (coalesce (hashRaw (or_empty (ch ! i))) (JStr [])) = Inr h \<and>
                matchesServerGenesis (details r ! i) = (i \<noteq> 0 \<or> server = [] \<or> h = hash (server ! 0)) \<and>
                blockValid (details r ! i) =
                  (\<not> cascaded (details r ! i) \<and> isHashValid (details r ! i) \<and>
                   isPowValid (details r ! i) \<and> isPrevValid (details r ! i) \<and>
                   isIndexValid (details r ! i) \<and> matchesServerGenesis (details r ! i))) \<and>
         (ch \<noteq> [] \<and> \<not> matchesServerGenesis (details r ! 0) \<longrightarrow>
            \<not> blockValid (details r ! 0) \<and> \<not> isValid r \<and>
            (\<forall>j. 0 < j \<and> j < length ch \<longrightarrow> cascaded (details r ! j) \<and> \<not> blockValid (details r ! j)))"
proof (intro conjI impI)
  show g: "\<forall>i<length ch.
            \<exists>h. to_string (coalesce (hashRaw (or_empty (ch ! i))) (JStr [])) = Inr h \<and>
                matchesServerGenesis (details r ! i) = (i \<noteq> 0 \<or> server = [] \<or> h = hash (server ! 0)) \<and>
                blockValid (details r ! i) =
                  (\<not> cascaded (details r ! i) \<and> isHashValid (details r ! i) \<and>
                   isPowValid (details r ! i) \<and> isPrevValid (details r ! i) \<and>
                   isIndexValid (details r ! i) \<and> matchesServerGenesis (details r ! i))"
    using check_record_genesis [OF external_entry [OF run]] by blast
  assume a: "ch \<noteq> [] \<and> \<not> matchesServerGenesis (details r ! 0)"
  then have z: "0 < length ch" by simp
  from g z a show bv: "\<not> blockValid (details r ! 0)" by blast
  from bv z show "\<not> isValid r" using external_isValid [OF run] by blast
  show "\<forall>j. 0 < j \<and> j < length ch \<longrightarrow> cascaded (details r ! j) \<and> \<not> blockValid (details r ! j)"
  proof (intro allI impI)
    fix j assume j: "0 < j \<and> j < length ch"
    then have "j < length ch" by simp
    from external_flags [OF run this] bv j show "cascaded (details r ! j) \<and> \<not> blockValid (details r ! j)"
      by blast
  qed
qed

text \<open>Witness: the example chain uploaded to a process whose genesis block is another
  one.\<close>

theorem C8_matchesServerGenesis_witness:
  "\<exists>r. validate_external_chain [foreign_genesis] (map record_of (chain demo_chain)) 1 = Inr r \<and>
       \<not> matchesServerGenesis (details r ! 0) \<and> \<not> blockValid (details r ! 0) \<and>
       cascaded (details r ! 1) \<and> \<not> blockValid (details r ! 1)"
proof -
  obtain r where run:
    "validate_external_chain [foreign_genesis] (map record_of (chain demo_chain)) 1 = Inr r"
    using foreign_records_report by blast
  have m: "map record_of (chain demo_chain) \<noteq> [] \<and> \<not> matchesServerGenesis (details r ! 0)"
    using run unfolding foreign_records_report by (auto simp add: demo_chain_def)
  have j: "(0::nat) < 1 \<and> 1 < length (map record_of (chain demo_chain))"
    by (simp add: demo_chain_def)
  from C8_matchesServerGenesis [OF run] m j
  have "\<not> blockValid (details r ! 0) \<and> cascaded (details r ! 1) \<and> \<not> blockValid (details r ! 1)"
    by blast
  with run m show ?thesis by blast
qed

text \<open>Counterexample to the claim as written: the example chain, valid in itself,
  uploaded to a process whose own chain, also valid, has another genesis block. All four checks of every block
  pass, the genesis comparison fails at position 0, and blocks 1 and 2 are cascaded and
  invalid for that reason alone.\<close>

theorem C8_counterexample:
  "isValid (validateChain demo_chain) \<and>
   isValid (validateChain \<lparr>difficulty = 1, chain = [foreign_genesis]\<rparr>) \<and>
   validate_external_chain [foreign_genesis] (map record_of (chain demo_chain)) 1 =
     Inr \<lparr>isValid = False, invalidBlockIndices = [Fin 0, Fin 1, Fin 2],
      details =
        [\<lparr>d_index = Fin 0, isHashValid = True, isPowValid = True, isPrevValid = True,
          isIndexValid = True, blockValid = False, cascaded = False, matchesServerGenesis = False\<rparr>,
         \<lparr>d_index = Fin 1, isHashValid = True, isPowValid = True, isPrevValid = True,
          isIndexValid = True, blockValid = False, cascaded = True, matchesServerGenesis = True\<rparr>,
         \<lparr>d_index = Fin 2, isHashValid = True, isPowValid = True, isPrevValid = True,
          isIndexValid = True, blockValid = False, cascaded = True, matchesServerGenesis = True\<rparr>]\<rparr>"
  using foreign_records_report foreign_genesis_valid by (simp add: demo_chain_report)

text \<open>
  Claim C9. When the validator of uploaded chains checks position \<open>i > 0\<close>, the index of the
  previous record is read under the key \<^verbatim>\<open>index\<close> only: if that key is absent, the entry has
  \<open>isIndexValid\<close> and \<open>blockValid\<close> false, whatever the aliases hold. And there is a chain,
  valid for the live validator and valid when uploaded under the canonical keys, whose
  rendering under alias keys only (no canonical key present) is accepted at position 0
  and reported invalid at positions 1 and 2, with \<open>isHashValid\<close> true everywhere (the
  aliases of the record being checked are read) and \<open>isPrevValid\<close> and \<open>isIndexValid\<close> false
  from position 1 on (the aliases of the previous record are not).
\<close>

theorem C9_alias_only_previous:
  "(validate_external_chain server ch d = Inr r \<and> 0 < i \<and> i < length ch \<and>
      get_prop (ch ! (i - 1)) ''index'' = JUndefined \<longrightarrow>
      \<not> isIndexValid (details r ! i) \<and> \<not> blockValid (details r ! i)) \<and>
   (\<exists>bc r'.
      isValid (validateChain bc) \<and>
      (\<exists>r0. validate_external_chain (chain bc) (map record_of (chain bc)) (difficulty bc) = Inr r0 \<and>
            isValid r0) \<and>
      list_all (\<lambda>v. list_all (\<lambda>k. get_prop v k = JUndefined) canonical_keys)
        (map alias_record (chain bc)) \<and>
      validate_external_chain (chain bc) (map alias_record (chain bc)) (difficulty bc) = Inr r' \<and>
      length (chain bc) = 3 \<and>
      map blockValid (details r') = [True, False, False] \<and>
      map isHashValid (details r') = [True, True, True] \<and>
      map isIndexValid (details r') = [True, False, False] \<and>
      map isPrevValid (details r') = [True, False, False])"
proof (intro conjI impI)
  assume a: "validate_external_chain server ch d = Inr r \<and> 0 < i \<and> i < length ch \<and>
      get_prop (ch ! (i - 1)) ''index'' = JUndefined"
  then have run: "validate_external_chain server ch d = Inr r" and i: "i < length ch" by simp_all
  from check_record_prev_index [OF external_entry [OF run i]] a
  show "\<not> isIndexValid (details r ! i)" "\<not> blockValid (details r ! i)" by blast+
next
  have d: "difficulty demo_chain = 1" by (simp add: demo_chain_def)
  have 1: "isValid (validateChain demo_chain)" by (simp add: demo_chain_report)
  have 2: "\<exists>r0. validate_external_chain (chain demo_chain) (map record_of (chain demo_chain))
          (difficulty demo_chain) = Inr r0 \<and> isValid r0"
    unfolding d demo_records_report by simp
  have 3: "list_all (\<lambda>v. list_all (\<lambda>k. get_prop v k = JUndefined) canonical_keys)
        (map alias_record (chain demo_chain))"
    by (simp add: demo_chain_def alias_record_def canonical_keys_def get_prop_def)
  obtain r' where r': "validate_external_chain (chain demo_chain) (map alias_record (chain demo_chain))
      (difficulty demo_chain) = Inr r'"
    unfolding d using alias_records_report by blast
  have 4: "length (chain demo_chain) = 3 \<and>
      map blockValid (details r') = [True, False, False] \<and>
      map isHashValid (details r') = [True, True, True] \<and>
      map isIndexValid (details r') = [True, False, False] \<and>
      map isPrevValid (details r') = [True, False, False]"
    using r' unfolding d alias_records_report by (auto simp add: demo_chain_def)
  show "\<exists>bc r'.
      isValid (validateChain bc) \<and>
      (\<exists>r0. validate_external_chain (chain bc) (map record_of (chain bc)) (difficulty bc) = Inr r0 \<and>
            isValid r0) \<and>
      list_all (\<lambda>v. list_all (\<lambda>k. get_prop v k = JUndefined) canonical_keys)
        (map alias_record (chain bc)) \<and>
      validate_external_chain (chain bc) (map alias_record (chain bc)) (difficulty bc) = Inr r' \<and>
      length (chain bc) = 3 \<and>
      map blockValid (details r') = [True, False, False] \<and>
      map isHashValid (details r') = [True, True, True] \<and>
      map isIndexValid (details r') = [True, False, False] \<and>
      map isPrevValid (details r') = [True, False, False]"
    apply (rule exI [of _ demo_chain])
    apply (rule exI [of _ r'])
    using 1 2 3 r' 4 apply simp
    done
qed

text \<open>Witness: position 1 of the example chain written with alias keys.\<close>

theorem C9_alias_only_previous_witness:
  "\<exists>r. validate_external_chain (chain demo_chain) (map alias_record (chain demo_chain)) 1 = Inr r \<and>
       get_prop (map alias_record (chain demo_chain) ! (1 - 1)) ''index'' = JUndefined \<and>
       \<not> isIndexValid (details r ! 1) \<and> \<not> blockValid (details r ! 1)"
proof -
  obtain r where run:
    "validate_external_chain (chain demo_chain) (map alias_record (chain demo_chain)) 1 = Inr r"
    using alias_records_report by blast
  have g: "get_prop (map alias_record (chain demo_chain) ! (1 - 1)) ''index'' = JUndefined"
    by (simp add: demo_chain_def alias_record_def get_prop_def)
  have i: "(0::nat) < 1 \<and> 1 < length (map alias_record (chain demo_chain))"
    by (simp add: demo_chain_def)
  from C9_alias_only_previous [of "chain demo_chain" "map alias_record (chain demo_chain)" 1 r 1] run g i
  have "\<not> isIndexValid (details r ! 1) \<and> \<not> blockValid (details r ! 1)" by blast
  with run g show ?thesis by blast
qed

text \<open>
  Claim C10. For the empty sequence of records and every difficulty, the validation of an
  uploaded chain returns a report with \<open>isValid = True\<close>, no invalid indices and no
  entries, for every state of the live chain: an empty uploaded chain is vacuously valid,
  not an error.
\<close>

theorem C10_empty_chain_valid:
  "validate_external_chain server [] d =
     Inr \<lparr>isValid = True, invalidBlockIndices = [], details = []\<rparr>"
  by (simp add: validate_external_chain_def ext_loop.simps)

end
